theory Spec2Isabelle
  imports Complex_Main "HOL-Library.AList"
begin

section \<open>The allocation-and-risk engine of \<open>logic_engine.py\<close>\<close>

text \<open>
  A shallow embedding of the class \<open>TradingLogic\<close> (\<open>src/logic_engine.py\<close>) and of the
  ledger queries of \<open>src/trade_logger.py\<close> it calls.

  Conventions of the embedding.
  \<^item> Python floats are modelled as \<^typ>\<open>real\<close>: arithmetic is exact. The one place where
    finite inputs produce a NaN (the RSI of a flat series) is modelled explicitly.
  \<^item> Python truthiness of a float is \<open>x \<noteq> 0\<close>; \<open>None\<close> is falsy.
  \<^item> Timestamps are reals counting hours; one planning cycle is taken to be instantaneous,
    so every row logged in a cycle carries the cycle's \<open>now\<close>.
  \<^item> The formatted reason strings are abstracted to the constructors of \<open>reason\<close>.
  \<^item> Console output is not modelled.
\<close>

subsection \<open>Data\<close>

type_synonym ticker = string

text \<open>One daily bar of \<open>fetch_history\<close>: the columns \<open>high\<close>, \<open>low\<close>, \<open>close\<close>.\<close>

type_synonym bar = "real \<times> real \<times> real"

definition bar_high :: "bar \<Rightarrow> real" where
  "bar_high b = fst b"

definition bar_low :: "bar \<Rightarrow> real" where
  "bar_low b = fst (snd b)"

definition bar_close :: "bar \<Rightarrow> real" where
  "bar_close b = snd (snd b)"

datatype error = TypeError | ZeroDivisionError | KeyError

text \<open>A float that may be NaN (only the RSI can be, on finite bars).\<close>

datatype pyfloat = NaN | Fin real

text \<open>The outcome of \<open>api.get_asset\<close>: it raises, or returns an asset with the two
  attributes the code reads (\<open>tradable\<close>, and whether \<open>status == 'active'\<close>).\<close>

datatype asset_lookup = AssetRaises | Asset bool bool

text \<open>One element of \<open>api.list_positions()\<close>.\<close>

record position =
  p_symbol :: ticker
  p_qty :: real
  p_avg_entry_price :: real
  p_market_value :: real
  p_current_price :: real

text \<open>The Alpaca REST client, as far as the engine uses it. \<open>None\<close> stands for a call
  that raises.\<close>

record alpaca =
  get_asset :: "ticker \<Rightarrow> asset_lookup"
  get_latest_trade :: "ticker \<Rightarrow> real option"
  get_bars :: "ticker \<Rightarrow> bar list option"
  list_positions :: "position list option"

text \<open>The fields of a \<open>TradingLogic\<close> instance. \<open>panic_mode\<close> is the attribute
  \<open>_panic_mode\<close>, absent (\<open>None\<close>) until \<open>generate_plan\<close> sets it.\<close>

record trading_logic =
  budget :: real
  risk_per_trade_percent :: real
  stop_loss_percent :: real
  max_concentration_percent :: real
  atr_multiplier :: real
  atr_period :: nat
  trailing_activation_pct :: real
  trailing_drop_pct :: real
  api :: "alpaca option"
  ticker_cache :: "ticker \<rightharpoonup> bool"
  panic_mode :: "bool option"

text \<open>\<open>TradingLogic.__init__\<close>, with the client that the constructor obtained (or not).\<close>

definition init_logic :: "real \<Rightarrow> real \<Rightarrow> real \<Rightarrow> real \<Rightarrow> alpaca option \<Rightarrow> trading_logic" where
  "init_logic b r s m a =
     \<lparr> budget = b, risk_per_trade_percent = r, stop_loss_percent = s,
       max_concentration_percent = m,
       atr_multiplier = 2, atr_period = 14,
       trailing_activation_pct = 1 / 10, trailing_drop_pct = 3 / 100,
       api = a, ticker_cache = Map.empty, panic_mode = None \<rparr>"

subsection \<open>Python helpers\<close>

definition truthy :: "real \<Rightarrow> bool" where
  "truthy x = (x \<noteq> 0)"

definition truthy_opt :: "real option \<Rightarrow> bool" where
  "truthy_opt x = (case x of None \<Rightarrow> False | Some v \<Rightarrow> v \<noteq> 0)"

text \<open>\<open>int(x)\<close> on a float truncates towards zero.\<close>

definition py_int :: "real \<Rightarrow> int" where
  "py_int x = (if 0 \<le> x then \<lfloor>x\<rfloor> else \<lceil>x\<rceil>)"

text \<open>\<open>round(x, 4)\<close>: to the nearest multiple of \<open>1/10000\<close>, ties to the even one.\<close>

definition round_half_even :: "real \<Rightarrow> int" where
  "round_half_even x =
     (let f = \<lfloor>x\<rfloor>; d = x - of_int f
      in if d < 1 / 2 then f else if 1 / 2 < d then f + 1 else if even f then f else f + 1)"

definition round4 :: "real \<Rightarrow> real" where
  "round4 x = of_int (round_half_even (x * 10000)) / 10000"

text \<open>The last \<open>n\<close> elements: \<open>.iloc[-n:]\<close>.\<close>

definition last_n :: "nat \<Rightarrow> 'a list \<Rightarrow> 'a list" where
  "last_n n xs = drop (length xs - n) xs"

text \<open>\<open>.rolling(window=period).mean().iloc[-1]\<close> on a series of at least \<open>period\<close>
  finite values.\<close>

definition rolling_mean_last :: "nat \<Rightarrow> real list \<Rightarrow> real" where
  "rolling_mean_last period xs = sum_list (last_n period xs) / real period"

subsection \<open>Indicator calculator\<close>

text \<open>The true range of each bar; the first bar has no previous close, and the row-wise
  \<open>max\<close> of pandas skips the two NaN columns there.\<close>

fun true_range :: "bar list \<Rightarrow> real list" where
  "true_range [] = []"
| "true_range (b # bs) =
     (bar_high b - bar_low b) #
     map (\<lambda>(p, c). max (bar_high c - bar_low c)
                      (max \<bar>bar_high c - bar_close p\<bar> \<bar>bar_low c - bar_close p\<bar>))
         (zip (b # bs) bs)"

definition calculate_atr :: "bar list option \<Rightarrow> nat \<Rightarrow> real option" where
  "calculate_atr ohlc_df period =
     (case ohlc_df of
        None \<Rightarrow> None
      | Some df \<Rightarrow>
          if length df < period + 1 then None
          else Some (rolling_mean_last period (true_range df)))"

text \<open>\<open>series.diff()\<close> without its leading NaN, which both \<open>where\<close> calls replace by 0
  and which the last window of a long enough series does not contain.\<close>

fun diffs :: "real list \<Rightarrow> real list" where
  "diffs [] = []"
| "diffs [x] = []"
| "diffs (x # y # ys) = (y - x) # diffs (y # ys)"

definition calculate_rsi :: "real list \<Rightarrow> nat \<Rightarrow> pyfloat option" where
  "calculate_rsi series period =
     (if length series < period + 1 then None
      else
        let delta = diffs series;
            gain = rolling_mean_last period (map (\<lambda>d. if 0 < d then d else 0) delta);
            loss = rolling_mean_last period (map (\<lambda>d. - (if d < 0 then d else 0)) delta)
        in if loss = 0 then (if gain = 0 then Some NaN else Some (Fin 100))
           else Some (Fin (100 - 100 / (1 + gain / loss))))"

definition calculate_sma :: "real list \<Rightarrow> nat \<Rightarrow> real option" where
  "calculate_sma series period =
     (if length series < period then None
      else Some (rolling_mean_last period series))"

subsection \<open>Market-data access\<close>

text \<open>\<open>validate_ticker\<close>: the answer and the instance with its cache updated.\<close>

definition validate_ticker :: "trading_logic \<Rightarrow> ticker \<Rightarrow> bool \<times> trading_logic" where
  "validate_ticker self t =
     (case ticker_cache self t of
        Some v \<Rightarrow> (v, self)
      | None \<Rightarrow>
          (case api self of
             None \<Rightarrow> (True, self\<lparr>ticker_cache := (ticker_cache self)(t \<mapsto> True)\<rparr>)
           | Some a \<Rightarrow>
               (case get_asset a t of
                  Asset tradable active \<Rightarrow>
                    (tradable \<and> active,
                     self\<lparr>ticker_cache := (ticker_cache self)(t \<mapsto> (tradable \<and> active))\<rparr>)
                | AssetRaises \<Rightarrow>
                    (False, self\<lparr>ticker_cache := (ticker_cache self)(t \<mapsto> False)\<rparr>))))"

text \<open>The world outside the instance: the ledger table \<open>history\<close> (oldest row first), the
  clock, and what the operator types when \<open>fetch_price\<close> asks for a price (\<open>None\<close> for
  \<open>skip\<close>; invalid entries are asked again and do not show).\<close>

datatype action = BUY | SELL | HOLD | SKIP | DEFENSE_MODE

datatype reason =
    ProtectedProfitStop | ATRStop | HardStopLoss | TrailingProfitTaken | TrendBreakdown
  | GracePeriod | SafeHold
  | SkipNotTradable | SkipCooldown | SkipMaxConcentration | SkipTechnicalsWeak
  | SkipDowntrend | SkipBelowSMA20
  | HolisticBuy | FractionalGapFill | PartialSwapFor ticker | SwapBuyVia ticker
  | DefenseFrozen | SafeHoldFrozen

record row =
  r_timestamp :: real
  r_ticker :: ticker
  r_action :: action
  r_quantity :: real
  r_price :: "real option"
  r_sentiment_score :: "real option"
  r_duration_score :: "real option"
  r_rsi_14 :: "pyfloat option"
  r_sma_20 :: "real option"
  r_sma_50 :: "real option"
  r_atr_14 :: "real option"
  r_high_water_mark :: "real option"
  r_decision_reason :: reason
  r_entry_price :: "real option"
  r_exit_price :: "real option"
  r_pnl :: "real option"
  r_pnl_percent :: "real option"
  r_rejected :: bool

record world =
  history :: "row list"
  now :: real
  manual_input :: "ticker \<Rightarrow> real option"

definition fetch_price :: "trading_logic \<Rightarrow> world \<Rightarrow> ticker \<Rightarrow> real option" where
  "fetch_price self w t =
     (case (case api self of None \<Rightarrow> None | Some a \<Rightarrow> get_latest_trade a t) of
        Some p \<Rightarrow> Some p
      | None \<Rightarrow> manual_input w t)"

definition fetch_history :: "trading_logic \<Rightarrow> ticker \<Rightarrow> bar list option" where
  "fetch_history self t =
     (case api self of
        None \<Rightarrow> None
      | Some a \<Rightarrow>
          (case get_bars a t of
             None \<Rightarrow> None
           | Some bars \<Rightarrow> if bars = [] then None else Some bars))"

subsection \<open>The ledger (\<open>trade_logger.py\<close>)\<close>

text \<open>A row with every optional column NULL; \<open>log_decision\<close> stores 0 for a missing
  \<open>quantity\<close> and 0.0 for a missing \<open>duration_score\<close>.\<close>

definition blank_row :: "ticker \<Rightarrow> action \<Rightarrow> reason \<Rightarrow> row" where
  "blank_row t a why =
     \<lparr> r_timestamp = 0, r_ticker = t, r_action = a, r_quantity = 0, r_price = None,
       r_sentiment_score = None, r_duration_score = Some 0, r_rsi_14 = None,
       r_sma_20 = None, r_sma_50 = None, r_atr_14 = None, r_high_water_mark = None,
       r_decision_reason = why, r_entry_price = None, r_exit_price = None,
       r_pnl = None, r_pnl_percent = None, r_rejected = False \<rparr>"

text \<open>\<open>log_decision\<close> stamps the row with the clock, appends it and returns its id.\<close>

definition log_decision :: "world \<Rightarrow> row \<Rightarrow> nat \<times> world" where
  "log_decision w d =
     (Suc (length (history w)),
      w\<lparr>history := history w @ [d\<lparr>r_timestamp := now w\<rparr>]\<rparr>)"

definition is_on_cooldown :: "world \<Rightarrow> ticker \<Rightarrow> real \<Rightarrow> bool" where
  "is_on_cooldown w t hours =
     list_ex (\<lambda>r. r_ticker r = t \<and> r_action r = BUY \<and> now w - hours < r_timestamp r
                  \<and> \<not> r_rejected r)
             (history w)"

text \<open>The row with the greatest timestamp, the later row winning a tie.\<close>

fun latest_row :: "row list \<Rightarrow> row option" where
  "latest_row [] = None"
| "latest_row (r # rs) =
     (case latest_row rs of
        None \<Rightarrow> Some r
      | Some r' \<Rightarrow> if r_timestamp r \<le> r_timestamp r' then Some r' else Some r)"

definition get_last_buy_time :: "world \<Rightarrow> ticker \<Rightarrow> real option" where
  "get_last_buy_time w t =
     map_option r_timestamp
       (latest_row (filter (\<lambda>r. r_ticker r = t \<and> r_action r = BUY) (history w)))"

text \<open>\<open>get_latest_scores\<close>: the pair (sentiment, duration).\<close>

definition get_latest_scores :: "world \<Rightarrow> ticker \<Rightarrow> real \<times> real" where
  "get_latest_scores w t =
     (case latest_row (filter (\<lambda>r. r_ticker r = t \<and> r_sentiment_score r \<noteq> None) (history w)) of
        None \<Rightarrow> (0, 0)
      | Some r \<Rightarrow>
          (case r_sentiment_score r of
             None \<Rightarrow> (0, 0)
           | Some s \<Rightarrow> (s, (case r_duration_score r of None \<Rightarrow> 1 / 2 | Some d \<Rightarrow> d))))"

subsection \<open>Risk evaluator: \<open>check_portfolio_risks\<close>\<close>

text \<open>A value of \<open>holdings_data\<close>; the dictionary itself is an association list in
  insertion order.\<close>

record holding =
  h_qty :: real
  h_avg_entry :: real
  h_market_value :: "real option"
  h_current_price :: "real option"

datatype side = Buy_side | Sell_side

datatype order_type = Limit | Market

record order =
  o_ticker :: ticker
  o_action :: side
  o_quantity :: real
  o_order_type :: order_type
  o_limit_price :: "real option"
  o_reason :: reason
  o_decision_id :: nat

text \<open>Lines 216-220: the stop before the zero-loss rule.\<close>

definition initial_stop_price :: "trading_logic \<Rightarrow> real option \<Rightarrow> real \<Rightarrow> real" where
  "initial_stop_price self atr_14 buy_price =
     (case atr_14 of
        Some a \<Rightarrow>
          if a \<noteq> 0 \<and> 0 < a then buy_price - atr_multiplier self * a
          else buy_price * (1 - stop_loss_percent self)
      | None \<Rightarrow> buy_price * (1 - stop_loss_percent self))"

text \<open>Lines 224-231: the zero-loss rule; the stop after it and \<open>is_zero_loss_active\<close>.\<close>

definition zero_loss_rule :: "real \<Rightarrow> real \<Rightarrow> real \<Rightarrow> real \<times> bool" where
  "zero_loss_rule buy_price current_price stop_price =
     (if 0 < buy_price then
        (if 5 / 100 < (current_price - buy_price) / buy_price then
           (let zero_loss_stop = buy_price * (1005 / 1000)
            in if stop_price < zero_loss_stop then (zero_loss_stop, True)
               else (stop_price, False))
         else (stop_price, False))
      else (stop_price, False))"

text \<open>Lines 233-251: priority 1. Computing \<open>drop_pct\<close> divides by \<open>buy_price\<close>.\<close>

definition stop_loss_trigger ::
  "trading_logic \<Rightarrow> real option \<Rightarrow> real \<Rightarrow> real \<Rightarrow> error + reason option" where
  "stop_loss_trigger self atr_14 buy_price current_price =
     (let (stop_price, is_zero_loss_active) =
            zero_loss_rule buy_price current_price (initial_stop_price self atr_14 buy_price)
      in if current_price < stop_price then
           (if buy_price = 0 then Inl ZeroDivisionError
            else if is_zero_loss_active then Inr (Some ProtectedProfitStop)
            else if truthy_opt atr_14 then Inr (Some ATRStop)
            else Inr (Some HardStopLoss))
         else Inr None)"

text \<open>Lines 262-267 and 326-329: the high-water mark over the last five highs.\<close>

definition recent_high :: "bar list option \<Rightarrow> real option" where
  "recent_high ohlc =
     (case ohlc of
        None \<Rightarrow> None
      | Some df \<Rightarrow>
          if 5 \<le> length df
          then (case map bar_high (last_n 5 df) of [] \<Rightarrow> None | h # hs \<Rightarrow> Some (fold max hs h))
          else None)"

text \<open>Lines 257-279: priority 2, entered only when priority 1 gave no reason.\<close>

definition trailing_trigger ::
  "trading_logic \<Rightarrow> bar list option \<Rightarrow> real \<Rightarrow> real \<Rightarrow> reason option" where
  "trailing_trigger self ohlc buy_price current_price =
     (if 0 < buy_price then
        (if trailing_activation_pct self < (current_price - buy_price) / buy_price then
           (let high_water_mark =
                  max (case recent_high ohlc of None \<Rightarrow> current_price | Some h \<Rightarrow> h) current_price;
                trailing_stop = high_water_mark * (1 - trailing_drop_pct self)
            in if current_price < trailing_stop then Some TrailingProfitTaken else None)
         else None)
      else None)"

text \<open>Lines 285-312: priority 3, entered only when priorities 1 and 2 gave no reason.
  \<open>Grace\<close> is the branch that logs a HOLD and continues with the next holding.\<close>

datatype verdict = Sell reason | Grace | Keep

definition hours_held :: "world \<Rightarrow> ticker \<Rightarrow> real" where
  "hours_held w t =
     (case get_last_buy_time w t of None \<Rightarrow> 999 | Some last_buy \<Rightarrow> now w - last_buy)"

definition breakdown_trigger ::
  "trading_logic \<Rightarrow> world \<Rightarrow> ticker \<Rightarrow> real option \<Rightarrow> real option \<Rightarrow> real \<Rightarrow> verdict" where
  "breakdown_trigger self w t sma_20 sma_50 current_price =
     (case (sma_20, sma_50) of
        (Some s20, Some s50) \<Rightarrow>
          if s20 \<noteq> 0 \<and> s50 \<noteq> 0 then
            (if current_price < s20 \<and> s20 < s50 then
               (if hours_held w t < 24 \<and> \<not> (case panic_mode self of None \<Rightarrow> False | Some p \<Rightarrow> p)
                then Grace else Sell TrendBreakdown)
             else Keep)
          else Keep
      | _ \<Rightarrow> Keep)"

text \<open>Lines 211-312: the three priorities in order, the first reason winning.\<close>

definition risk_verdict ::
  "trading_logic \<Rightarrow> world \<Rightarrow> ticker \<Rightarrow> bar list option \<Rightarrow> real option \<Rightarrow> real option
     \<Rightarrow> real option \<Rightarrow> real \<Rightarrow> real \<Rightarrow> error + verdict" where
  "risk_verdict self w t ohlc atr_14 sma_20 sma_50 buy_price current_price =
     (case stop_loss_trigger self atr_14 buy_price current_price of
        Inl e \<Rightarrow> Inl e
      | Inr (Some why) \<Rightarrow> Inr (Sell why)
      | Inr None \<Rightarrow>
          (case trailing_trigger self ohlc buy_price current_price of
             Some why \<Rightarrow> Inr (Sell why)
           | None \<Rightarrow> Inr (breakdown_trigger self w t sma_20 sma_50 current_price)))"

text \<open>The accumulators of the loop: \<open>sell_orders\<close>, \<open>total_proceeds\<close>, and the world.\<close>

type_synonym risk_state = "order list \<times> real \<times> world"

text \<open>Line 198: \<open>data.get('current_price') or self.fetch_price(ticker)\<close>.\<close>

definition holding_price :: "trading_logic \<Rightarrow> world \<Rightarrow> ticker \<Rightarrow> holding \<Rightarrow> real option" where
  "holding_price self w t data =
     (if truthy_opt (h_current_price data) then h_current_price data else fetch_price self w t)"

text \<open>Lines 204-209: the indicators of a holding, computed only when there is a history.\<close>

definition holding_atr :: "trading_logic \<Rightarrow> bar list option \<Rightarrow> real option" where
  "holding_atr self ohlc =
     (case ohlc of None \<Rightarrow> None | Some df \<Rightarrow> calculate_atr ohlc (atr_period self))"

definition holding_sma :: "bar list option \<Rightarrow> nat \<Rightarrow> real option" where
  "holding_sma ohlc period =
     (case ohlc of None \<Rightarrow> None | Some df \<Rightarrow> calculate_sma (map bar_close df) period)"

text \<open>Lines 192-377: the body of the loop for one holding.\<close>

definition check_holding ::
  "trading_logic \<Rightarrow> ticker \<times> holding \<Rightarrow> risk_state \<Rightarrow> error + risk_state" where
  "check_holding self td st =
     (let (t, data) = td;
          (sell_orders, total_proceeds, w) = st;
          buy_price = h_avg_entry data;
          shares = py_int (h_qty data)
      in if shares \<le> 0 then Inr st
         else
           (case holding_price self w t data of
              None \<Rightarrow> Inr st
            | Some current_price \<Rightarrow>
                if \<not> truthy current_price then Inr st
                else
                  (let ohlc = fetch_history self t;
                       atr_14 = holding_atr self ohlc;
                       sma_20 = holding_sma ohlc 20;
                       sma_50 = holding_sma ohlc 50;
                       base = (blank_row t HOLD SafeHold)
                                \<lparr> r_quantity := of_int shares, r_price := Some current_price,
                                  r_sma_20 := sma_20, r_sma_50 := sma_50, r_atr_14 := atr_14 \<rparr>
                   in case risk_verdict self w t ohlc atr_14 sma_20 sma_50 buy_price current_price of
                        Inl e \<Rightarrow> Inl e
                      | Inr Grace \<Rightarrow>
                          Inr (sell_orders, total_proceeds,
                               snd (log_decision w (base\<lparr>r_decision_reason := GracePeriod\<rparr>)))
                      | Inr Keep \<Rightarrow>
                          Inr (sell_orders, total_proceeds, snd (log_decision w base))
                      | Inr (Sell sell_reason) \<Rightarrow>
                          (let pnl = (current_price - buy_price) * of_int shares;
                               pnl_pct = (if 0 < buy_price
                                          then (current_price - buy_price) / buy_price * 100 else 0);
                               estimated_proceeds = current_price * of_int shares;
                               log_hwm = map_option (\<lambda>h. max h current_price) (recent_high ohlc);
                               (risk_decision_id, w') =
                                  log_decision w
                                    (base\<lparr> r_action := SELL, r_high_water_mark := log_hwm,
                                           r_decision_reason := sell_reason,
                                           r_entry_price := Some buy_price,
                                           r_exit_price := Some current_price,
                                           r_pnl := Some pnl, r_pnl_percent := Some pnl_pct \<rparr>)
                           in Inr (sell_orders @
                                     [\<lparr> o_ticker = t, o_action = Sell_side,
                                        o_quantity = of_int shares, o_order_type = Limit,
                                        o_limit_price = Some current_price,
                                        o_reason = sell_reason,
                                        o_decision_id = risk_decision_id \<rparr>],
                                   total_proceeds + estimated_proceeds, w')))))"

text \<open>The loop over \<open>holdings_data.items()\<close>; an exception ends it.\<close>

fun check_holdings ::
  "trading_logic \<Rightarrow> (ticker \<times> holding) list \<Rightarrow> risk_state \<Rightarrow> error + risk_state" where
  "check_holdings self [] st = Inr st"
| "check_holdings self (td # rest) st =
     (case check_holding self td st of
        Inl e \<Rightarrow> Inl e
      | Inr st' \<Rightarrow> check_holdings self rest st')"

definition check_portfolio_risks ::
  "trading_logic \<Rightarrow> world \<Rightarrow> (ticker \<times> holding) list \<Rightarrow> error + risk_state" where
  "check_portfolio_risks self w holdings_data = check_holdings self holdings_data ([], 0, w)"

subsection \<open>Allocation planner: \<open>generate_plan\<close>\<close>

text \<open>One element of \<open>sentiment_data\<close>; a missing score key is \<open>None\<close>.\<close>

record signal =
  s_ticker :: ticker
  s_action :: string
  s_sentiment_score :: "real option"
  s_duration_score :: "real option"
  s_reasoning :: string

datatype item_type = new_signal | holding

text \<open>One entry of \<open>rank_list\<close>; only holdings have the key \<open>qty\<close>.\<close>

record rank_item =
  ri_ticker :: ticker
  ri_type :: item_type
  ri_rank_score :: real
  ri_sent_score :: real
  ri_dur_score :: real
  ri_price :: "real option"
  ri_qty :: "real option"

text \<open>Lines 398-417: the mode flags and the tightening of the ATR multiplier.\<close>

definition apply_env_bias :: "trading_logic \<Rightarrow> real \<Rightarrow> trading_logic" where
  "apply_env_bias self env_bias =
     self\<lparr> panic_mode := Some (env_bias < 3 / 10),
           atr_multiplier :=
             (if env_bias = 0 then atr_multiplier self * (1 / 2)
              else if env_bias < 1 / 2 then atr_multiplier self * (7 / 10)
              else atr_multiplier self) \<rparr>"

text \<open>Lines 430-441: the live positions, accumulated into the cost basis and the
  dictionary \<open>current_holdings_data\<close>.\<close>

fun load_positions ::
  "position list \<Rightarrow> real \<times> (ticker \<times> holding) list \<Rightarrow> real \<times> (ticker \<times> holding) list" where
  "load_positions [] acc = acc"
| "load_positions (p # ps) (cost_basis_total, current_holdings_data) =
     load_positions ps
       (cost_basis_total + p_qty p * p_avg_entry_price p,
        AList.update (p_symbol p)
          \<lparr> h_qty = p_qty p, h_avg_entry = p_avg_entry_price p,
            h_market_value = Some (p_market_value p),
            h_current_price = Some (p_current_price p) \<rparr>
          current_holdings_data)"

text \<open>Lines 445-450: the fallback to the portfolio file, a dictionary from ticker to
  (\<open>shares\<close>, \<open>buy_price\<close>).\<close>

fun load_portfolio ::
  "(ticker \<times> real \<times> real) list \<Rightarrow> real \<times> (ticker \<times> holding) list
     \<Rightarrow> real \<times> (ticker \<times> holding) list" where
  "load_portfolio [] acc = acc"
| "load_portfolio ((t, shares, buy_price) # rest) (cost_basis_total, current_holdings_data) =
     load_portfolio rest
       (cost_basis_total + shares * buy_price,
        AList.update t
          \<lparr> h_qty = shares, h_avg_entry = buy_price,
            h_market_value = None, h_current_price = None \<rparr>
          current_holdings_data)"

text \<open>Lines 424-450.\<close>

definition cost_basis_usage ::
  "trading_logic \<Rightarrow> (ticker \<times> real \<times> real) list \<Rightarrow> real \<times> (ticker \<times> holding) list" where
  "cost_basis_usage self portfolio =
     (case api self of
        None \<Rightarrow> (0, [])
      | Some a \<Rightarrow>
          (case list_positions a of
             Some positions \<Rightarrow> load_positions positions (0, [])
           | None \<Rightarrow> load_portfolio portfolio (0, [])))"

text \<open>Lines 473-500: the new Buy signals, validated and ranked.\<close>

fun add_signals ::
  "trading_logic \<Rightarrow> world \<Rightarrow> signal list \<Rightarrow> rank_item list
     \<Rightarrow> trading_logic \<times> world \<times> rank_item list" where
  "add_signals self w [] rank_list = (self, w, rank_list)"
| "add_signals self w (sg # rest) rank_list =
     (if s_action sg = ''Buy'' then
        (let t = s_ticker sg;
             sent_score = (case s_sentiment_score sg of None \<Rightarrow> 0 | Some v \<Rightarrow> v);
             dur_score = (case s_duration_score sg of None \<Rightarrow> 1 / 2 | Some v \<Rightarrow> v);
             (valid, self') = validate_ticker self t
         in if \<not> valid then
              add_signals self'
                (snd (log_decision w
                   ((blank_row t SKIP SkipNotTradable)
                      \<lparr> r_price := Some 0, r_sentiment_score := Some sent_score,
                        r_duration_score := Some dur_score \<rparr>)))
                rest rank_list
            else
              add_signals self' w rest
                (rank_list @
                   [\<lparr> ri_ticker = t, ri_type = new_signal,
                      ri_rank_score = sent_score * dur_score,
                      ri_sent_score = sent_score, ri_dur_score = dur_score,
                      ri_price = fetch_price self' w t, ri_qty = None \<rparr>]))
      else add_signals self w rest rank_list)"

text \<open>Lines 503-522: every holding with a positive quantity, scored from the ledger.\<close>

definition holding_item :: "trading_logic \<Rightarrow> world \<Rightarrow> ticker \<times> holding \<Rightarrow> rank_item" where
  "holding_item self w td =
     (let (last_sent, last_dur) = get_latest_scores w (fst td)
      in \<lparr> ri_ticker = fst td, ri_type = holding,
           ri_rank_score = last_sent * last_dur,
           ri_sent_score = last_sent, ri_dur_score = last_dur,
           ri_price = fetch_price self w (fst td), ri_qty = Some (h_qty (snd td)) \<rparr>)"

definition add_holdings ::
  "trading_logic \<Rightarrow> world \<Rightarrow> (ticker \<times> holding) list \<Rightarrow> rank_item list \<Rightarrow> rank_item list" where
  "add_holdings self w current_holdings_data rank_list =
     rank_list @ map (holding_item self w) (filter (\<lambda>td. 0 < h_qty (snd td)) current_holdings_data)"

text \<open>Line 525: a stable sort, descending by \<open>rank_score\<close>.\<close>

definition rank_sort :: "rank_item list \<Rightarrow> rank_item list" where
  "rank_sort rank_list = sort_key (\<lambda>x. - ri_rank_score x) rank_list"

text \<open>The variables the execution loop updates.\<close>

record plan_state =
  orders :: "order list"
  remaining_budget :: real
  sold_tickers :: "ticker list"
  ledger :: world

text \<open>The row logged for a decision about a new signal.\<close>

definition signal_row :: "rank_item \<Rightarrow> action \<Rightarrow> reason \<Rightarrow> real \<Rightarrow> row" where
  "signal_row item a why new_price =
     (blank_row (ri_ticker item) a why)
       \<lparr> r_price := Some new_price, r_sentiment_score := Some (ri_sent_score item),
         r_duration_score := Some (ri_dur_score item) \<rparr>"

text \<open>Lines 583-661: the technical filter. \<open>Pass\<close> lets the signal through, with the
  indicators for the later BUY row; \<open>Skipped\<close> carries the row of the skip; comparing
  \<open>None\<close> with a number raises \<open>TypeError\<close>.\<close>

datatype filter_result = Pass "pyfloat option" "real option" "real option" | Skipped row

definition technical_filter ::
  "trading_logic \<Rightarrow> rank_item \<Rightarrow> real \<Rightarrow> error + filter_result" where
  "technical_filter self item new_price =
     (case fetch_history self (ri_ticker item) of
        None \<Rightarrow> Inr (Pass None None None)
      | Some ohlc \<Rightarrow>
          (let close_series = map bar_close ohlc;
               rsi = calculate_rsi close_series 14;
               sma_20 = calculate_sma close_series 20;
               sma_50 = calculate_sma close_series 50;
               new_rank = ri_rank_score item;
               is_oversold = (case rsi of Some (Fin v) \<Rightarrow> v < 35 | _ \<Rightarrow> False);
               is_high_conviction = (1 / 2 \<le> new_rank);
               skip = (\<lambda>why. (signal_row item SKIP why new_price)
                                \<lparr>r_rsi_14 := rsi, r_sma_20 := sma_20, r_sma_50 := sma_50\<rparr>);
               trend = (if truthy_opt sma_20 \<and> truthy_opt sma_50
                           \<and> (case (sma_20, sma_50) of
                                 (Some s20, Some s50) \<Rightarrow> new_price < s20 \<and> s20 < s50
                               | _ \<Rightarrow> False)
                        then (if is_oversold \<or> is_high_conviction then Inr (Pass rsi sma_20 sma_50)
                              else Inr (Skipped (skip SkipDowntrend)))
                        else if truthy_opt sma_20 \<and> \<not> truthy_opt sma_50
                                \<and> (case sma_20 of Some s20 \<Rightarrow> new_price < s20 | None \<Rightarrow> False)
                        then (if is_oversold \<or> is_high_conviction then Inr (Pass rsi sma_20 sma_50)
                              else Inr (Skipped ((skip SkipBelowSMA20)\<lparr>r_sma_50 := None\<rparr>)))
                        else Inr (Pass rsi sma_20 sma_50))
           in case rsi of
                None \<Rightarrow> Inl TypeError
              | Some NaN \<Rightarrow> trend
              | Some (Fin v) \<Rightarrow>
                  if 75 < v then Inr (Skipped (skip SkipTechnicalsWeak))
                  else if 65 \<le> v then
                    (case sma_20 of
                       None \<Rightarrow> Inl TypeError
                     | Some s20 \<Rightarrow>
                         if new_price \<le> s20 then Inr (Skipped (skip SkipTechnicalsWeak))
                         else trend)
                  else trend))"

text \<open>Lines 766-852: the swap with one holding that met the threshold and whose half is
  at least one share.\<close>

definition perform_swap ::
  "rank_item \<Rightarrow> real \<Rightarrow> rank_item \<Rightarrow> int \<Rightarrow> plan_state \<Rightarrow> error + plan_state" where
  "perform_swap item new_price potential_swap swap_qty st =
     (case ri_price potential_swap of
        None \<Rightarrow> Inl TypeError
      | Some old_price \<Rightarrow>
          (let new_ticker = ri_ticker item;
               old_ticker = ri_ticker potential_swap;
               proceeds = of_int swap_qty * old_price;
               (sell_decision_id, w1) =
                  log_decision (ledger st)
                    ((blank_row old_ticker SELL (PartialSwapFor new_ticker))
                       \<lparr>r_quantity := of_int swap_qty, r_price := Some old_price\<rparr>);
               sell_order =
                  \<lparr> o_ticker = old_ticker, o_action = Sell_side, o_quantity = of_int swap_qty,
                    o_order_type = Limit, o_limit_price = Some old_price,
                    o_reason = PartialSwapFor new_ticker, o_decision_id = sell_decision_id \<rparr>;
               raw_swap_qty = proceeds / new_price;
               (shares_to_buy_swap, swap_order_type) =
                  (if 1 \<le> raw_swap_qty then (of_int \<lfloor>raw_swap_qty\<rfloor>, Limit)
                   else if 0 < raw_swap_qty then (round4 raw_swap_qty, Market)
                   else (0, Limit));
               (buy_orders, w2) =
                  (if 0 < shares_to_buy_swap then
                     (let (buy_decision_id, w') =
                            log_decision w1
                              ((signal_row item BUY (SwapBuyVia old_ticker) new_price)
                                 \<lparr>r_quantity := shares_to_buy_swap\<rparr>)
                      in ([\<lparr> o_ticker = new_ticker, o_action = Buy_side,
                              o_quantity = shares_to_buy_swap, o_order_type = swap_order_type,
                              o_limit_price =
                                (if swap_order_type = Limit then Some new_price else None),
                              o_reason = SwapBuyVia old_ticker,
                              o_decision_id = buy_decision_id \<rparr>], w'))
                   else ([], w1));
               buy_cost = (if 0 < shares_to_buy_swap then shares_to_buy_swap * new_price else 0);
               leftover = proceeds - buy_cost
           in Inr (st\<lparr> orders := orders st @ [sell_order] @ buy_orders,
                       remaining_budget :=
                         (if 0 < leftover then remaining_budget st + leftover
                          else remaining_budget st),
                       sold_tickers := sold_tickers st @ [old_ticker],
                       ledger := w2 \<rparr>)))"

text \<open>Lines 752-852: the scan of the reversed rank list; it ends at the first swap.\<close>

fun swap_scan ::
  "rank_item \<Rightarrow> real \<Rightarrow> rank_item list \<Rightarrow> plan_state \<Rightarrow> error + plan_state" where
  "swap_scan item new_price [] st = Inr st"
| "swap_scan item new_price (potential_swap # rest) st =
     (if ri_type potential_swap = holding \<and> ri_ticker potential_swap \<notin> set (sold_tickers st)
      then
        (case ri_qty potential_swap of
           None \<Rightarrow> Inl KeyError
         | Some old_qty \<Rightarrow>
             (let new_rank = ri_rank_score item;
                  old_rank = ri_rank_score potential_swap;
                  threshold_met =
                    (if old_rank \<le> 1 / 100 then 1 / 10 < new_rank
                     else old_rank * (12 / 10) < new_rank)
              in if threshold_met then
                   (let swap_qty = \<lfloor>old_qty * (1 / 2)\<rfloor>
                    in if swap_qty \<le> 0 then swap_scan item new_price rest st
                       else perform_swap item new_price potential_swap swap_qty st)
                 else swap_scan item new_price rest st))
      else swap_scan item new_price rest st)"

text \<open>Lines 663-746: sizing. \<open>Some\<close> is a buy (the loop continues with the next
  signal); \<open>None\<close> falls through to the swap scan.\<close>

definition buy_order ::
  "rank_item \<Rightarrow> real \<Rightarrow> real \<Rightarrow> order_type \<Rightarrow> reason \<Rightarrow> pyfloat option \<Rightarrow> real option
     \<Rightarrow> real option \<Rightarrow> plan_state \<Rightarrow> plan_state" where
  "buy_order item new_price qty typ why rsi sma_20 sma_50 st =
     (let (decision_id, w') =
            log_decision (ledger st)
              ((signal_row item BUY why new_price)
                 \<lparr> r_quantity := qty, r_rsi_14 := rsi, r_sma_20 := sma_20, r_sma_50 := sma_50 \<rparr>)
      in st\<lparr> orders := orders st @
                 [\<lparr> o_ticker = ri_ticker item, o_action = Buy_side, o_quantity = qty,
                    o_order_type = typ,
                    o_limit_price = (if typ = Limit then Some new_price else None),
                    o_reason = why, o_decision_id = decision_id \<rparr>],
             remaining_budget := remaining_budget st - qty * new_price,
             ledger := w' \<rparr>)"

definition size_order ::
  "trading_logic \<Rightarrow> rank_item \<Rightarrow> real \<Rightarrow> pyfloat option \<Rightarrow> real option \<Rightarrow> real option
     \<Rightarrow> plan_state \<Rightarrow> plan_state option" where
  "size_order self item new_price rsi sma_20 sma_50 st =
     (let target_trade_value = budget self * risk_per_trade_percent self;
          raw_qty = target_trade_value / new_price
      in if 1 \<le> raw_qty \<and> new_price \<le> remaining_budget st then
           (let floor_qty = \<lfloor>raw_qty\<rfloor>;
                max_allowed_shares = \<lfloor>budget self * max_concentration_percent self / new_price\<rfloor>;
                shares_to_buy =
                  (if floor_qty = 0 then (if 1 \<le> max_allowed_shares then 1 else floor_qty)
                   else floor_qty)
            in if 0 < shares_to_buy then
                 (let capped =
                        (if remaining_budget st < of_int shares_to_buy * new_price
                         then \<lfloor>remaining_budget st / new_price\<rfloor> else shares_to_buy)
                  in if 0 < capped
                     then Some (buy_order item new_price (of_int capped) Limit HolisticBuy
                                  rsi sma_20 sma_50 st)
                     else None)
               else None)
         else if 0 < raw_qty \<and> raw_qty < 1 \<and> 0 < remaining_budget st
                 \<and> remaining_budget st < new_price then
           (let frac_qty = round4 (remaining_budget st / new_price)
            in if 0 < frac_qty
               then Some (buy_order item new_price frac_qty Market FractionalGapFill
                            rsi sma_20 sma_50 st)
               else None)
         else None)"

definition log_skip :: "plan_state \<Rightarrow> row \<Rightarrow> plan_state" where
  "log_skip st r = st\<lparr>ledger := snd (log_decision (ledger st) r)\<rparr>"

text \<open>Lines 545-852: the body of the execution loop for one entry of the rank list.\<close>

definition plan_item ::
  "trading_logic \<Rightarrow> (ticker \<times> holding) list \<Rightarrow> rank_item list \<Rightarrow> rank_item
     \<Rightarrow> plan_state \<Rightarrow> error + plan_state" where
  "plan_item self current_holdings_data rank_list item st =
     (if ri_type item \<noteq> new_signal then Inr st
      else
        (case ri_price item of
           None \<Rightarrow> Inr st
         | Some new_price \<Rightarrow>
             if \<not> truthy new_price then Inr st
             else if is_on_cooldown (ledger st) (ri_ticker item) 4
             then Inr (log_skip st (signal_row item SKIP SkipCooldown new_price))
             else
               (let max_shares_for_ticker =
                      \<lfloor>budget self * max_concentration_percent self / new_price\<rfloor>;
                    current_held =
                      py_int (case map_of current_holdings_data (ri_ticker item) of
                                None \<Rightarrow> 0 | Some data \<Rightarrow> h_qty data)
                in if max_shares_for_ticker \<le> current_held
                   then Inr (log_skip st (signal_row item SKIP SkipMaxConcentration new_price))
                   else
                     (case technical_filter self item new_price of
                        Inl e \<Rightarrow> Inl e
                      | Inr (Skipped r) \<Rightarrow> Inr (log_skip st r)
                      | Inr (Pass rsi sma_20 sma_50) \<Rightarrow>
                          (case size_order self item new_price rsi sma_20 sma_50 st of
                             Some st' \<Rightarrow> Inr st'
                           | None \<Rightarrow> swap_scan item new_price (rev rank_list) st)))))"

fun plan_items ::
  "trading_logic \<Rightarrow> (ticker \<times> holding) list \<Rightarrow> rank_item list \<Rightarrow> rank_item list
     \<Rightarrow> plan_state \<Rightarrow> error + plan_state" where
  "plan_items self current_holdings_data rank_list [] st = Inr st"
| "plan_items self current_holdings_data rank_list (item # rest) st =
     (case plan_item self current_holdings_data rank_list item st of
        Inl e \<Rightarrow> Inl e
      | Inr st' \<Rightarrow> plan_items self current_holdings_data rank_list rest st')"

text \<open>Lines 458-525: the rank list, with the instance and the world after validating and
  logging.\<close>

definition build_rank_list ::
  "trading_logic \<Rightarrow> world \<Rightarrow> signal list \<Rightarrow> (ticker \<times> holding) list \<Rightarrow> real
     \<Rightarrow> trading_logic \<times> world \<times> rank_item list" where
  "build_rank_list self w sentiment_data current_holdings_data env_bias =
     (let (self', w', rank_list) =
            (if env_bias < 1 / 2 \<or> env_bias = 0 then
               (self,
                snd (log_decision w
                   ((blank_row ''SYSTEM'' DEFENSE_MODE
                       (if env_bias = 0 then SafeHoldFrozen else DefenseFrozen))
                      \<lparr> r_price := Some 0, r_sentiment_score := Some 0,
                        r_duration_score := Some 0 \<rparr>)),
                [])
             else add_signals self w sentiment_data [])
      in (self', w', rank_sort (add_holdings self' w' current_holdings_data rank_list)))"

text \<open>Lines 531-541: the state with which the execution loop starts.\<close>

definition after_risk_check :: "real \<Rightarrow> risk_state \<Rightarrow> plan_state" where
  "after_risk_check remaining rs =
     (let (risk_sells, risk_proceeds, w) = rs
      in \<lparr> orders = risk_sells,
           remaining_budget = (if 0 < risk_proceeds then remaining + risk_proceeds else remaining),
           sold_tickers = map o_ticker risk_sells,
           ledger = w \<rparr>)"

text \<open>\<open>generate_plan\<close>: the instance afterwards, and either the exception that ended the
  cycle or the order list with the world after the cycle. The rows written before an
  exception are not kept by the model.\<close>

definition generate_plan ::
  "trading_logic \<Rightarrow> world \<Rightarrow> signal list \<Rightarrow> (ticker \<times> real \<times> real) list \<Rightarrow> real
     \<Rightarrow> trading_logic \<times> (error + order list \<times> world)" where
  "generate_plan self w sentiment_data portfolio env_bias =
     (let self1 = apply_env_bias self env_bias;
          effective_budget = budget self1 * env_bias;
          (cost_basis_total, current_holdings_data) = cost_basis_usage self1 portfolio;
          remaining = effective_budget - cost_basis_total;
          (self2, w1, rank_list) =
             build_rank_list self1 w sentiment_data current_holdings_data env_bias
      in (self2,
          (case check_portfolio_risks self2 w1 current_holdings_data of
             Inl e \<Rightarrow> Inl e
           | Inr rs \<Rightarrow>
               (case plan_items self2 current_holdings_data rank_list rank_list
                       (after_risk_check remaining rs) of
                  Inl e \<Rightarrow> Inl e
                | Inr st \<Rightarrow> Inr (orders st, ledger st)))))"

subsection \<open>Budget measures\<close>

text \<open>The value of an order: quantity times price, the price being the limit price or, for
  a market order, the quote of its ticker.\<close>

definition order_value :: "(ticker \<Rightarrow> real) \<Rightarrow> order \<Rightarrow> real" where
  "order_value quote od =
     o_quantity od * (case o_limit_price od of Some p \<Rightarrow> p | None \<Rightarrow> quote (o_ticker od))"

text \<open>The total cost of the buy orders of a list.\<close>

definition buy_cost :: "(ticker \<Rightarrow> real) \<Rightarrow> order list \<Rightarrow> real" where
  "buy_cost quote ords =
     sum_list (map (order_value quote) (filter (\<lambda>od. o_action od = Buy_side) ords))"

text \<open>The total proceeds of the sell orders of a list.\<close>

definition sell_proceeds :: "(ticker \<Rightarrow> real) \<Rightarrow> order list \<Rightarrow> real" where
  "sell_proceeds quote ords =
     sum_list (map (order_value quote) (filter (\<lambda>od. o_action od = Sell_side) ords))"

text \<open>The rounding allowance of a list of orders: \<open>price / 20000\<close> for every fractional
  (market) buy, whose quantity \<open>round (x, 4)\<close> may exceed \<open>x\<close> by up to \<open>0.00005\<close>.\<close>

definition rounding_allowance :: "(ticker \<Rightarrow> real) \<Rightarrow> order list \<Rightarrow> real" where
  "rounding_allowance quote ords =
     sum_list (map (\<lambda>od. quote (o_ticker od) / 20000)
                 (filter (\<lambda>od. o_action od = Buy_side \<and> o_order_type od = Market) ords))"



text \<open>The price that \<open>fetch_price\<close> quotes for a ticker (0 when it has none).\<close>

definition quote :: "trading_logic \<Rightarrow> world \<Rightarrow> ticker \<Rightarrow> real" where
  "quote self w t = (case fetch_price self w t of Some p \<Rightarrow> p | None \<Rightarrow> 0)"

subsection \<open>Successive cycles and concrete scenarios\<close>

text \<open>Successive calls of \<open>generate_plan\<close> on one instance, each with its own world,
  signals, portfolio file and \<open>env_bias\<close>.\<close>

fun run_cycles ::
  "trading_logic \<Rightarrow> (world \<times> signal list \<times> (ticker \<times> real \<times> real) list \<times> real) list
     \<Rightarrow> trading_logic" where
  "run_cycles self [] = self"
| "run_cycles self ((w, sentiment_data, portfolio, env_bias) # rest) =
     run_cycles (fst (generate_plan self w sentiment_data portfolio env_bias)) rest"

text \<open>A client every call of which raises.\<close>

definition raising_api :: alpaca where
  "raising_api = \<lparr> get_asset = (\<lambda>t. AssetRaises), get_latest_trade = (\<lambda>t. None),
                   get_bars = (\<lambda>t. None), list_positions = None \<rparr>"

text \<open>An empty ledger and an operator who answers \<open>skip\<close>.\<close>

definition quiet_world :: world where
  "quiet_world = \<lparr> history = [], now = 0, manual_input = (\<lambda>t. None) \<rparr>"

text \<open>The instance that \<open>main\<close> builds from \<open>config.py\<close>.\<close>

definition config_logic :: "alpaca option \<Rightarrow> trading_logic" where
  "config_logic a = init_logic 1000 (1 / 10) (8 / 100) (2 / 10) a"

text \<open>Fifty bars that end in a confirmed downtrend: SMA20 = 105, SMA50 = 114, ATR = 2.\<close>

definition downtrend_bars :: "bar list" where
  "downtrend_bars = replicate 30 (121, 119, 120) @ replicate 20 (106, 104, 105)"

text \<open>Twenty-five bars: an SMA20 but no SMA50.\<close>

definition short_bars :: "bar list" where
  "short_bars = replicate 25 (106, 104, 105)"

text \<open>Ten bars, as for a recently listed ticker: too few for the RSI.\<close>

definition ipo_bars :: "bar list" where
  "ipo_bars = replicate 10 (51, 49, 50)"

text \<open>A client that answers every call; the history depends on the ticker.\<close>

definition market_api :: alpaca where
  "market_api =
     \<lparr> get_asset = (\<lambda>t. Asset True True),
       get_latest_trade = (\<lambda>t. Some 100),
       get_bars = (\<lambda>t. if t = ''XYZ'' then Some downtrend_bars
                        else if t = ''NEW'' then Some short_bars
                        else if t = ''IPO'' then Some ipo_bars else None),
       list_positions = Some [] \<rparr>"

text \<open>Ten shares bought at 100 and quoted at 100.\<close>

definition flat_holding :: holding where
  "flat_holding = \<lparr> h_qty = 10, h_avg_entry = 100, h_market_value = Some 1000,
                    h_current_price = Some 100 \<rparr>"

text \<open>Ten and a half shares bought at 100 and quoted at 90.\<close>

definition stopped_holding :: holding where
  "stopped_holding = \<lparr> h_qty = 21 / 2, h_avg_entry = 100, h_market_value = None,
                       h_current_price = Some 90 \<rparr>"

text \<open>Half a share.\<close>

definition fractional_holding :: holding where
  "fractional_holding = \<lparr> h_qty = 1 / 2, h_avg_entry = 100, h_market_value = None,
                          h_current_price = Some 90 \<rparr>"

text \<open>A holding from the portfolio file, without a live price.\<close>

definition unpriced_holding :: holding where
  "unpriced_holding = \<lparr> h_qty = 10, h_avg_entry = 100, h_market_value = None,
                        h_current_price = None \<rparr>"

text \<open>A ledger whose last BUY of XYZ is ten hours old.\<close>

definition recent_buy_world :: world where
  "recent_buy_world =
     \<lparr> history = [(blank_row ''XYZ'' BUY HolisticBuy)\<lparr>r_timestamp := 90, r_quantity := 10\<rparr>],
       now = 100, manual_input = (\<lambda>t. None) \<rparr>"

text \<open>The instance as \<open>generate_plan\<close> leaves it with \<open>env_bias = 1\<close>.\<close>

definition calm_logic :: trading_logic where
  "calm_logic = apply_env_bias (config_logic (Some market_api)) 1"

text \<open>The instance as \<open>generate_plan\<close> leaves it with \<open>env_bias = 0.2\<close>.\<close>

definition panic_logic :: trading_logic where
  "panic_logic = apply_env_bias (config_logic (Some market_api)) (2 / 10)"

text \<open>A client that quotes every ticker at 500 and reports no positions and no history.\<close>

definition nvda_api :: alpaca where
  "nvda_api =
     \<lparr> get_asset = (\<lambda>t. Asset True True), get_latest_trade = (\<lambda>t. Some 500),
       get_bars = (\<lambda>t. None), list_positions = Some [] \<rparr>"

text \<open>Scenario C of the specification: a Buy signal for NVDA with rank score 0.75 * 0.8 = 0.6.\<close>

definition nvda_signal :: signal where
  "nvda_signal = \<lparr> s_ticker = ''NVDA'', s_action = ''Buy'', s_sentiment_score = Some (3 / 4),
                   s_duration_score = Some (8 / 10), s_reasoning = '''' \<rparr>"

text \<open>A Buy signal for a ticker with only ten days of history.\<close>

definition ipo_signal :: signal where
  "ipo_signal = \<lparr> s_ticker = ''IPO'', s_action = ''Buy'', s_sentiment_score = Some (3 / 4),
                  s_duration_score = Some (8 / 10), s_reasoning = '''' \<rparr>"











text \<open>A client that reports the one position, ten shares of OLD bought at 100, at a
  negative price.\<close>

definition neg_api :: alpaca where
  "neg_api =
     \<lparr> get_asset = (\<lambda>t. Asset True True),
       get_latest_trade = (\<lambda>t. Some 100),
       get_bars = (\<lambda>t. None),
       list_positions =
         Some [\<lparr> p_symbol = ''OLD'', p_qty = 10, p_avg_entry_price = 100,
                  p_market_value = -10, p_current_price = -1 \<rparr>] \<rparr>"

text \<open>The stop-loss sell of that position, at its negative price.\<close>

definition neg_sell :: order where
  "neg_sell = \<lparr> o_ticker = ''OLD'', o_action = Sell_side, o_quantity = 10,
                o_order_type = Limit, o_limit_price = Some (-1),
                o_reason = HardStopLoss, o_decision_id = 1 \<rparr>"

section \<open>Properties\<close>

subsection \<open>What \<open>generate_plan\<close> does to the instance\<close>

lemma validate_ticker_atr: "atr_multiplier (snd (validate_ticker self t)) = atr_multiplier self"
  by (simp add: validate_ticker_def split: option.splits asset_lookup.splits)

lemma validate_ticker_panic: "panic_mode (snd (validate_ticker self t)) = panic_mode self"
  by (simp add: validate_ticker_def split: option.splits asset_lookup.splits)

lemma add_signals_fields:
  "atr_multiplier (fst (add_signals self w sd rl)) = atr_multiplier self
   \<and> panic_mode (fst (add_signals self w sd rl)) = panic_mode self"
proof (induction sd arbitrary: self w rl)
  case Nil
  show ?case by simp
next
  case (Cons sg rest)
  obtain v s' where vt: "validate_ticker self (s_ticker sg) = (v, s')"
    by (cases "validate_ticker self (s_ticker sg)")
  have s': "atr_multiplier s' = atr_multiplier self" "panic_mode s' = panic_mode self"
    using validate_ticker_atr [of self "s_ticker sg"] validate_ticker_panic [of self "s_ticker sg"] vt
    by simp_all
  show ?case
    using Cons.IH [of s'] Cons.IH [of self] s' vt by (simp add: Let_def)
qed

lemma generate_plan_instance:
  "atr_multiplier (fst (generate_plan self w sd pf e)) = atr_multiplier (apply_env_bias self e)
   \<and> panic_mode (fst (generate_plan self w sd pf e)) = Some (e < 3 / 10)"
proof -
  have "atr_multiplier (fst (build_rank_list s w sd h e)) = atr_multiplier s
        \<and> panic_mode (fst (build_rank_list s w sd h e)) = panic_mode s" for s h
    using add_signals_fields [of s w sd "[]"]
    by (cases "add_signals s w sd []") (simp add: build_rank_list_def Let_def)
  from this [of "apply_env_bias self e"] show ?thesis
    by (simp add: generate_plan_def Let_def apply_env_bias_def split_beta)
qed

subsection \<open>Ticker validator\<close>

text \<open>C4, as the claim states it, fails: when the asset lookup raises, \<open>validate_ticker\<close>
  returns \<open>False\<close> and the ticker is rejected.\<close>

theorem validate_ticker_raise_rejects:
  "fst (validate_ticker (config_logic (Some raising_api)) ''NVDA'') = False"
  by (simp add: validate_ticker_def config_logic_def init_logic_def raising_api_def)

text \<open>C4 (amended): \<open>validate_ticker\<close> assumes a ticker valid only when the API client is
  absent; when the asset lookup raises it rejects the ticker; and in every case the answer is
  memoized: a second call for the same ticker returns the first answer and leaves the
  instance unchanged, whatever client the instance has by then.\<close>

theorem validate_ticker_open_only_without_client:
  "(ticker_cache self t = None \<and> api self = None \<longrightarrow> fst (validate_ticker self t))
   \<and> (ticker_cache self t = None \<and> (\<exists>a. api self = Some a \<and> get_asset a t = AssetRaises)
        \<longrightarrow> \<not> fst (validate_ticker self t))
   \<and> validate_ticker (snd (validate_ticker self t)\<lparr>api := a'\<rparr>) t
        = (fst (validate_ticker self t), snd (validate_ticker self t)\<lparr>api := a'\<rparr>)"
  by (auto simp: validate_ticker_def split: option.splits asset_lookup.splits)

theorem validate_ticker_open_only_without_client_witness:
  "fst (validate_ticker (config_logic None) ''NVDA'')
   \<and> \<not> fst (validate_ticker (config_logic (Some raising_api)) ''NVDA'')"
  using validate_ticker_open_only_without_client [of "config_logic None" "''NVDA''"]
        validate_ticker_open_only_without_client [of "config_logic (Some raising_api)" "''NVDA''"]
  by (simp add: config_logic_def init_logic_def raising_api_def)

subsection \<open>Stop price\<close>

text \<open>C8: the zero-loss override never lowers a stop. Whatever stop was computed before it
  (in particular the ATR-based or fixed-percent stop of \<open>initial_stop_price\<close>), the stop after
  the override is greater than or equal to it, for every entry price, current price and
  ATR.\<close>

theorem zero_loss_never_lowers:
  "stop_price \<le> fst (zero_loss_rule buy_price current_price stop_price)
   \<and> initial_stop_price self atr_14 buy_price
       \<le> fst (zero_loss_rule buy_price current_price (initial_stop_price self atr_14 buy_price))"
  by (simp add: zero_loss_rule_def Let_def)

theorem zero_loss_never_lowers_witness:
  "initial_stop_price (config_logic None) (Some 2) 100 = 96
   \<and> fst (zero_loss_rule 100 106 96) = 1005 / 10
   \<and> (96::real) \<le> fst (zero_loss_rule 100 106 96)"
  using zero_loss_never_lowers [of 96 100 106]
  by (simp add: zero_loss_rule_def initial_stop_price_def config_logic_def init_logic_def Let_def)

subsection \<open>Tightening of the ATR multiplier\<close>

text \<open>C9: every call of \<open>generate_plan\<close> with \<open>env_bias < 0.5\<close> multiplies the stored
  \<open>atr_multiplier\<close> by 0.7 (by 0.5 when \<open>env_bias = 0\<close>), and the other operation that returns
  the instance, \<open>validate_ticker\<close>, leaves the field alone. So the tightening compounds: after
  \<open>n\<close> consecutive defense-mode cycles the multiplier is \<open>0.7 ^ n\<close> times its initial value
  (\<open>0.5 ^ n\<close> for \<open>n\<close> safe-hold cycles).\<close>

theorem atr_tightening_compounds:
  "atr_multiplier (fst (generate_plan self w sd pf e)) =
     (if e = 0 then atr_multiplier self * (1 / 2)
      else if e < 1 / 2 then atr_multiplier self * (7 / 10) else atr_multiplier self)
   \<and> atr_multiplier (snd (validate_ticker self t)) = atr_multiplier self
   \<and> ((\<forall>c \<in> set cycles. snd (snd (snd c)) < 1 / 2 \<and> snd (snd (snd c)) \<noteq> 0)
        \<longrightarrow> atr_multiplier (run_cycles self cycles)
              = (7 / 10) ^ length cycles * atr_multiplier self)
   \<and> ((\<forall>c \<in> set cycles. snd (snd (snd c)) = 0)
        \<longrightarrow> atr_multiplier (run_cycles self cycles)
              = (1 / 2) ^ length cycles * atr_multiplier self)"
proof -
  have one: "atr_multiplier (fst (generate_plan s w' sd' pf' e')) =
     (if e' = 0 then atr_multiplier s * (1 / 2)
      else if e' < 1 / 2 then atr_multiplier s * (7 / 10) else atr_multiplier s)"
    for s w' sd' pf' e'
    using generate_plan_instance [of s w' sd' pf' e'] by (simp add: apply_env_bias_def)
  have defence: "(\<forall>c \<in> set cycles. snd (snd (snd c)) < 1 / 2 \<and> snd (snd (snd c)) \<noteq> 0)
        \<longrightarrow> atr_multiplier (run_cycles self cycles)
              = (7 / 10) ^ length cycles * atr_multiplier self"
  proof (induction cycles arbitrary: self)
    case Nil
    show ?case by simp
  next
    case (Cons c cycles)
    obtain w' sd' pf' e' where c: "c = (w', sd', pf', e')" by (cases c) auto
    show ?case
      using Cons.IH [of "fst (generate_plan self w' sd' pf' e')"] one [of self w' sd' pf' e']
      by (auto simp: c)
  qed
  have freeze: "(\<forall>c \<in> set cycles. snd (snd (snd c)) = 0)
        \<longrightarrow> atr_multiplier (run_cycles self cycles)
              = (1 / 2) ^ length cycles * atr_multiplier self"
  proof (induction cycles arbitrary: self)
    case Nil
    show ?case by simp
  next
    case (Cons c cycles)
    obtain w' sd' pf' e' where c: "c = (w', sd', pf', e')" by (cases c) auto
    show ?case
      using Cons.IH [of "fst (generate_plan self w' sd' pf' e')"] one [of self w' sd' pf' e']
      by (auto simp: c)
  qed
  show ?thesis using one defence freeze validate_ticker_atr by blast
qed

theorem atr_tightening_compounds_witness:
  "atr_multiplier (run_cycles (config_logic None)
       [(quiet_world, [], [], 4 / 10), (quiet_world, [], [], 4 / 10)]) = 98 / 100"
  using atr_tightening_compounds
     [of "config_logic None" quiet_world "[]" "[]" "4 / 10" "''X''"
         "[(quiet_world, [], [], 4 / 10), (quiet_world, [], [], 4 / 10)]"]
  by (simp add: config_logic_def init_logic_def power2_eq_square)


subsection \<open>One holding in the risk check\<close>

lemma log_decision_history:
  "snd (log_decision w d) = w\<lparr>history := history w @ [d\<lparr>r_timestamp := now w\<rparr>]\<rparr>"
  by (simp add: log_decision_def)

lemma risk_verdict_breakdown:
  assumes "risk_verdict self w t ohlc atr_14 sma_20 sma_50 buy_price current_price
             = Inr (Sell TrendBreakdown)"
  shows "\<exists>s20 s50. sma_20 = Some s20 \<and> sma_50 = Some s50 \<and> current_price < s20 \<and> s20 < s50"
  using assms
  by (auto simp: risk_verdict_def stop_loss_trigger_def trailing_trigger_def
        breakdown_trigger_def Let_def
      split: sum.splits option.splits if_splits prod.splits)

text \<open>What one pass of the loop body can do.\<close>

lemma check_holding_step:
  assumes "check_holding self (t, data) (so, tp, w) = Inr (so', tp', w')"
  shows "(so' = so \<and> tp' = tp \<and> w' = w
            \<and> (py_int (h_qty data) \<le> 0 \<or> \<not> truthy_opt (holding_price self w t data)))
       \<or> (\<exists>r. so' = so \<and> tp' = tp \<and> w' = w\<lparr>history := history w @ [r]\<rparr>
              \<and> r_action r = HOLD \<and> r_ticker r = t)
       \<or> (\<exists>cp why r.
              holding_price self w t data = Some cp \<and> cp \<noteq> 0 \<and> 0 < py_int (h_qty data)
            \<and> risk_verdict self w t (fetch_history self t)
                  (holding_atr self (fetch_history self t))
                  (holding_sma (fetch_history self t) 20)
                  (holding_sma (fetch_history self t) 50)
                  (h_avg_entry data) cp = Inr (Sell why)
            \<and> so' = so @ [\<lparr> o_ticker = t, o_action = Sell_side,
                              o_quantity = of_int (py_int (h_qty data)), o_order_type = Limit,
                              o_limit_price = Some cp, o_reason = why,
                              o_decision_id = Suc (length (history w)) \<rparr>]
            \<and> tp' = tp + cp * of_int (py_int (h_qty data))
            \<and> w' = w\<lparr>history := history w @ [r]\<rparr>
            \<and> r_action r = SELL \<and> r_ticker r = t)"
proof (cases "py_int (h_qty data) \<le> 0 \<or> \<not> truthy_opt (holding_price self w t data)")
  case True
  then consider "py_int (h_qty data) \<le> 0" | "holding_price self w t data = None"
    | "holding_price self w t data = Some 0"
    by (auto simp: truthy_opt_def split: option.splits)
  then have "check_holding self (t, data) (so, tp, w) = Inr (so, tp, w)"
    by cases (simp_all add: check_holding_def truthy_def Let_def)
  then show ?thesis using assms True by simp
next
  case False
  then obtain cp where cp: "holding_price self w t data = Some cp" "cp \<noteq> 0"
    and sh: "0 < py_int (h_qty data)"
    by (auto simp: truthy_opt_def split: option.splits)
  show ?thesis
  proof (cases "risk_verdict self w t (fetch_history self t)
                  (holding_atr self (fetch_history self t))
                  (holding_sma (fetch_history self t) 20)
                  (holding_sma (fetch_history self t) 50)
                  (h_avg_entry data) cp")
    case (Inl e)
    then show ?thesis using assms cp sh
      by (simp add: check_holding_def truthy_def Let_def)
  next
    case (Inr v)
    then show ?thesis using assms cp sh
      by (cases v)
         (auto simp: check_holding_def truthy_def Let_def log_decision_def blank_row_def)
  qed
qed


text \<open>The row of a holding that was evaluated, before the verdict fills in its reason.\<close>

lemma check_holding_keep:
  assumes "0 < py_int (h_qty data)" "holding_price self w t data = Some cp" "cp \<noteq> 0"
    and "risk_verdict self w t (fetch_history self t)
            (holding_atr self (fetch_history self t))
            (holding_sma (fetch_history self t) 20)
            (holding_sma (fetch_history self t) 50) (h_avg_entry data) cp = Inr Keep"
  shows "check_holding self (t, data) (so, tp, w) =
           Inr (so, tp, w\<lparr>history := history w @
                  [(blank_row t HOLD SafeHold)
                     \<lparr> r_timestamp := now w, r_quantity := of_int (py_int (h_qty data)),
                       r_price := Some cp,
                       r_sma_20 := holding_sma (fetch_history self t) 20,
                       r_sma_50 := holding_sma (fetch_history self t) 50,
                       r_atr_14 := holding_atr self (fetch_history self t) \<rparr>]\<rparr>)"
  using assms by (simp add: check_holding_def truthy_def Let_def log_decision_def blank_row_def)

lemma check_holding_grace:
  assumes "0 < py_int (h_qty data)" "holding_price self w t data = Some cp" "cp \<noteq> 0"
    and "risk_verdict self w t (fetch_history self t)
            (holding_atr self (fetch_history self t))
            (holding_sma (fetch_history self t) 20)
            (holding_sma (fetch_history self t) 50) (h_avg_entry data) cp = Inr Grace"
  shows "check_holding self (t, data) (so, tp, w) =
           Inr (so, tp, w\<lparr>history := history w @
                  [(blank_row t HOLD GracePeriod)
                     \<lparr> r_timestamp := now w, r_quantity := of_int (py_int (h_qty data)),
                       r_price := Some cp,
                       r_sma_20 := holding_sma (fetch_history self t) 20,
                       r_sma_50 := holding_sma (fetch_history self t) 50,
                       r_atr_14 := holding_atr self (fetch_history self t) \<rparr>]\<rparr>)"
  using assms by (simp add: check_holding_def truthy_def Let_def log_decision_def blank_row_def)

lemma check_holding_sell:
  assumes "0 < py_int (h_qty data)" "holding_price self w t data = Some cp" "cp \<noteq> 0"
    and "risk_verdict self w t (fetch_history self t)
            (holding_atr self (fetch_history self t))
            (holding_sma (fetch_history self t) 20)
            (holding_sma (fetch_history self t) 50) (h_avg_entry data) cp = Inr (Sell why)"
  shows "check_holding self (t, data) (so, tp, w) =
           Inr (so @ [\<lparr> o_ticker = t, o_action = Sell_side,
                         o_quantity = of_int (py_int (h_qty data)), o_order_type = Limit,
                         o_limit_price = Some cp, o_reason = why,
                         o_decision_id = Suc (length (history w)) \<rparr>],
                tp + cp * of_int (py_int (h_qty data)),
                w\<lparr>history := history w @
                  [(blank_row t SELL why)
                     \<lparr> r_timestamp := now w, r_quantity := of_int (py_int (h_qty data)),
                       r_price := Some cp,
                       r_sma_20 := holding_sma (fetch_history self t) 20,
                       r_sma_50 := holding_sma (fetch_history self t) 50,
                       r_atr_14 := holding_atr self (fetch_history self t),
                       r_high_water_mark :=
                         map_option (\<lambda>h. max h cp) (recent_high (fetch_history self t)),
                       r_entry_price := Some (h_avg_entry data),
                       r_exit_price := Some cp,
                       r_pnl := Some ((cp - h_avg_entry data) * of_int (py_int (h_qty data))),
                       r_pnl_percent :=
                         Some (if 0 < h_avg_entry data
                               then (cp - h_avg_entry data) / h_avg_entry data * 100 else 0) \<rparr>]\<rparr>)"
  using assms by (simp add: check_holding_def truthy_def Let_def log_decision_def blank_row_def)

lemma logged_rowI:
  assumes "x = Inr (so, tp, w\<lparr>history := history w @ [r]\<rparr>)" and "P r"
  shows "\<exists>r. x = Inr (so, tp, w\<lparr>history := history w @ [r]\<rparr>) \<and> P r"
  using assms by blast

lemma py_int_small: "0 < x \<Longrightarrow> x < 1 \<Longrightarrow> py_int x = 0"
  by (simp add: py_int_def floor_eq_iff)

lemma check_holding_skip:
  "py_int (h_qty data) \<le> 0 \<Longrightarrow> check_holding self (t, data) st = Inr st"
  by (cases st) (simp add: check_holding_def Let_def)

text \<open>Every order of the loop's result was there at the start or is the sell of one of the
  holdings, for the reason the evaluation of that holding gave.\<close>

lemma check_holdings_orders:
  assumes "check_holdings self hs (so, tp, w) = Inr (so', tp', w')"
  shows "\<forall>od \<in> set so'. od \<in> set so
           \<or> (\<exists>data w0 cp. (o_ticker od, data) \<in> set hs
                 \<and> o_action od = Sell_side \<and> 0 < py_int (h_qty data)
                 \<and> o_quantity od = of_int (py_int (h_qty data))
                 \<and> o_limit_price od = Some cp
                 \<and> risk_verdict self w0 (o_ticker od) (fetch_history self (o_ticker od))
                      (holding_atr self (fetch_history self (o_ticker od)))
                      (holding_sma (fetch_history self (o_ticker od)) 20)
                      (holding_sma (fetch_history self (o_ticker od)) 50)
                      (h_avg_entry data) cp = Inr (Sell (o_reason od)))"
  using assms
proof (induction hs arbitrary: so tp w)
  case Nil
  then show ?case by simp
next
  case (Cons td hs)
  obtain t data where td: "td = (t, data)" by (cases td)
  from Cons.prems obtain so1 tp1 w1
    where step: "check_holding self (t, data) (so, tp, w) = Inr (so1, tp1, w1)"
      and rest: "check_holdings self hs (so1, tp1, w1) = Inr (so', tp', w')"
    by (auto simp: td split: sum.splits)
  have ih: "\<forall>od \<in> set so'. od \<in> set so1
           \<or> (\<exists>data w0 cp. (o_ticker od, data) \<in> set hs
                 \<and> o_action od = Sell_side \<and> 0 < py_int (h_qty data)
                 \<and> o_quantity od = of_int (py_int (h_qty data))
                 \<and> o_limit_price od = Some cp
                 \<and> risk_verdict self w0 (o_ticker od) (fetch_history self (o_ticker od))
                      (holding_atr self (fetch_history self (o_ticker od)))
                      (holding_sma (fetch_history self (o_ticker od)) 20)
                      (holding_sma (fetch_history self (o_ticker od)) 50)
                      (h_avg_entry data) cp = Inr (Sell (o_reason od)))"
    using Cons.IH [OF rest] .
  have new: "\<forall>od \<in> set so1. od \<in> set so
           \<or> (\<exists>w0 cp. o_ticker od = t
                 \<and> o_action od = Sell_side \<and> 0 < py_int (h_qty data)
                 \<and> o_quantity od = of_int (py_int (h_qty data))
                 \<and> o_limit_price od = Some cp
                 \<and> risk_verdict self w0 (o_ticker od) (fetch_history self (o_ticker od))
                      (holding_atr self (fetch_history self (o_ticker od)))
                      (holding_sma (fetch_history self (o_ticker od)) 20)
                      (holding_sma (fetch_history self (o_ticker od)) 50)
                      (h_avg_entry data) cp = Inr (Sell (o_reason od)))"
    using check_holding_step [OF step] by auto
  show ?case
  proof
    fix od assume "od \<in> set so'"
    with ih have "od \<in> set so1 \<or> (\<exists>data w0 cp. (o_ticker od, data) \<in> set hs
                 \<and> o_action od = Sell_side \<and> 0 < py_int (h_qty data)
                 \<and> o_quantity od = of_int (py_int (h_qty data))
                 \<and> o_limit_price od = Some cp
                 \<and> risk_verdict self w0 (o_ticker od) (fetch_history self (o_ticker od))
                      (holding_atr self (fetch_history self (o_ticker od)))
                      (holding_sma (fetch_history self (o_ticker od)) 20)
                      (holding_sma (fetch_history self (o_ticker od)) 50)
                      (h_avg_entry data) cp = Inr (Sell (o_reason od)))" by blast
    then show "od \<in> set so
           \<or> (\<exists>data w0 cp. (o_ticker od, data) \<in> set (td # hs)
                 \<and> o_action od = Sell_side \<and> 0 < py_int (h_qty data)
                 \<and> o_quantity od = of_int (py_int (h_qty data))
                 \<and> o_limit_price od = Some cp
                 \<and> risk_verdict self w0 (o_ticker od) (fetch_history self (o_ticker od))
                      (holding_atr self (fetch_history self (o_ticker od)))
                      (holding_sma (fetch_history self (o_ticker od)) 20)
                      (holding_sma (fetch_history self (o_ticker od)) 50)
                      (h_avg_entry data) cp = Inr (Sell (o_reason od)))"
    proof
      assume "od \<in> set so1"
      with new show ?thesis unfolding td by fastforce
    next
      assume "\<exists>data w0 cp. (o_ticker od, data) \<in> set hs
                 \<and> o_action od = Sell_side \<and> 0 < py_int (h_qty data)
                 \<and> o_quantity od = of_int (py_int (h_qty data))
                 \<and> o_limit_price od = Some cp
                 \<and> risk_verdict self w0 (o_ticker od) (fetch_history self (o_ticker od))
                      (holding_atr self (fetch_history self (o_ticker od)))
                      (holding_sma (fetch_history self (o_ticker od)) 20)
                      (holding_sma (fetch_history self (o_ticker od)) 50)
                      (h_avg_entry data) cp = Inr (Sell (o_reason od))"
      then show ?thesis by auto
    qed
  qed
qed

subsection \<open>Share quantities in the risk check\<close>

text \<open>C10: \<open>check_portfolio_risks\<close> truncates every holding's quantity to an integer before
  it evaluates the holding. A holding with a fractional position of \<open>0 < quantity < 1\<close> is
  skipped entirely: the loop body returns the accumulators unchanged (no sell order, no
  proceeds, no decision record). And every sell order of the risk check carries the
  integer-truncated full position of its holding as its quantity.\<close>

theorem risk_check_truncates_quantity:
  "(0 < h_qty data \<and> h_qty data < 1 \<longrightarrow> check_holding self (t, data) st = Inr st)
   \<and> (check_portfolio_risks self w holdings_data = Inr (sell_orders, total_proceeds, w')
        \<longrightarrow> (\<forall>od \<in> set sell_orders.
               \<exists>data. (o_ticker od, data) \<in> set holdings_data \<and> o_action od = Sell_side
                  \<and> 0 < py_int (h_qty data)
                  \<and> o_quantity od = of_int (py_int (h_qty data))))"
proof (intro conjI impI)
  assume "0 < h_qty data \<and> h_qty data < 1"
  then have "py_int (h_qty data) \<le> 0" using py_int_small [of "h_qty data"] by simp
  then show "check_holding self (t, data) st = Inr st" by (rule check_holding_skip)
next
  assume "check_portfolio_risks self w holdings_data = Inr (sell_orders, total_proceeds, w')"
  then have "check_holdings self holdings_data ([], 0, w) = Inr (sell_orders, total_proceeds, w')"
    by (simp add: check_portfolio_risks_def)
  from check_holdings_orders [OF this]
  show "\<forall>od \<in> set sell_orders.
               \<exists>data. (o_ticker od, data) \<in> set holdings_data \<and> o_action od = Sell_side
                  \<and> 0 < py_int (h_qty data)
                  \<and> o_quantity od = of_int (py_int (h_qty data))"
    by fastforce
qed

subsection \<open>Trend breakdown\<close>

text \<open>C6: \<open>check_portfolio_risks\<close> never emits a trend-breakdown sell when SMA50 is
  unavailable. Every sell order with the trend-breakdown reason comes from a holding for
  which both averages exist, with price below SMA20 and SMA20 below SMA50; without an SMA50
  the breakdown rule keeps the holding whatever SMA20 is; and a holding without an SMA50
  that neither the stop-loss nor the trailing take-profit sells is held, with a HOLD row
  logged.\<close>

theorem breakdown_needs_both_averages:
  "(check_portfolio_risks self w holdings_data = Inr (sell_orders, total_proceeds, w')
      \<longrightarrow> (\<forall>od \<in> set sell_orders. o_reason od = TrendBreakdown \<longrightarrow>
             (\<exists>cp s20 s50. o_limit_price od = Some cp
                \<and> holding_sma (fetch_history self (o_ticker od)) 20 = Some s20
                \<and> holding_sma (fetch_history self (o_ticker od)) 50 = Some s50
                \<and> cp < s20 \<and> s20 < s50)))
   \<and> breakdown_trigger self w t sma_20 None current_price = Keep
   \<and> (holding_sma (fetch_history self t) 50 = None
        \<and> 0 < py_int (h_qty data) \<and> holding_price self w t data = Some current_price
        \<and> current_price \<noteq> 0
        \<and> stop_loss_trigger self (holding_atr self (fetch_history self t))
             (h_avg_entry data) current_price = Inr None
        \<and> trailing_trigger self (fetch_history self t) (h_avg_entry data) current_price = None
      \<longrightarrow> (\<exists>r. check_holding self (t, data) (so, tp, w)
                    = Inr (so, tp, w\<lparr>history := history w @ [r]\<rparr>)
               \<and> r_ticker r = t \<and> r_action r = HOLD \<and> r_decision_reason r = SafeHold))"
proof (intro conjI impI)
  assume "check_portfolio_risks self w holdings_data = Inr (sell_orders, total_proceeds, w')"
  then have "check_holdings self holdings_data ([], 0, w) = Inr (sell_orders, total_proceeds, w')"
    by (simp add: check_portfolio_risks_def)
  from check_holdings_orders [OF this]
  show "\<forall>od \<in> set sell_orders. o_reason od = TrendBreakdown \<longrightarrow>
             (\<exists>cp s20 s50. o_limit_price od = Some cp
                \<and> holding_sma (fetch_history self (o_ticker od)) 20 = Some s20
                \<and> holding_sma (fetch_history self (o_ticker od)) 50 = Some s50
                \<and> cp < s20 \<and> s20 < s50)"
    using risk_verdict_breakdown by fastforce
next
  show "breakdown_trigger self w t sma_20 None current_price = Keep"
    by (simp add: breakdown_trigger_def split: option.splits)
next
  assume a: "holding_sma (fetch_history self t) 50 = None
        \<and> 0 < py_int (h_qty data) \<and> holding_price self w t data = Some current_price
        \<and> current_price \<noteq> 0
        \<and> stop_loss_trigger self (holding_atr self (fetch_history self t))
             (h_avg_entry data) current_price = Inr None
        \<and> trailing_trigger self (fetch_history self t) (h_avg_entry data) current_price = None"
  then have "risk_verdict self w t (fetch_history self t)
                  (holding_atr self (fetch_history self t))
                  (holding_sma (fetch_history self t) 20)
                  (holding_sma (fetch_history self t) 50)
                  (h_avg_entry data) current_price = Inr Keep"
    by (simp add: risk_verdict_def breakdown_trigger_def split: option.splits)
  then have keep: "check_holding self (t, data) (so, tp, w) =
           Inr (so, tp, w\<lparr>history := history w @
                  [(blank_row t HOLD SafeHold)
                     \<lparr> r_timestamp := now w, r_quantity := of_int (py_int (h_qty data)),
                       r_price := Some current_price,
                       r_sma_20 := holding_sma (fetch_history self t) 20,
                       r_sma_50 := holding_sma (fetch_history self t) 50,
                       r_atr_14 := holding_atr self (fetch_history self t) \<rparr>]\<rparr>)"
    using a check_holding_keep by blast
  show "\<exists>r. check_holding self (t, data) (so, tp, w)
                    = Inr (so, tp, w\<lparr>history := history w @ [r]\<rparr>)
               \<and> r_ticker r = t \<and> r_action r = HOLD \<and> r_decision_reason r = SafeHold"
    by (rule logged_rowI [OF keep]) (simp add: blank_row_def)
qed

subsection \<open>The indicators of the scenarios\<close>

lemma downtrend_sma20: "holding_sma (Some downtrend_bars) 20 = Some 105"
  by code_simp

lemma downtrend_sma50: "holding_sma (Some downtrend_bars) 50 = Some 114"
  by code_simp

lemma downtrend_atr: "calculate_atr (Some downtrend_bars) 14 = Some 2"
  by code_simp

lemma short_sma20: "holding_sma (Some short_bars) 20 = Some 105"
  by code_simp

lemma short_sma50: "holding_sma (Some short_bars) 50 = None"
  by code_simp

lemma short_atr: "calculate_atr (Some short_bars) 14 = Some 2"
  by code_simp

lemma ipo_rsi: "calculate_rsi (map bar_close ipo_bars) 14 = None"
  by code_simp

lemma market_history:
  "fetch_history (config_logic (Some market_api)) ''XYZ'' = Some downtrend_bars"
  "fetch_history (config_logic (Some market_api)) ''NEW'' = Some short_bars"
  "fetch_history (config_logic (Some market_api)) ''IPO'' = Some ipo_bars"
  by (simp_all add: fetch_history_def config_logic_def init_logic_def market_api_def
        downtrend_bars_def short_bars_def ipo_bars_def)

lemma stop_loss_no_error:
  "buy_price \<noteq> 0 \<Longrightarrow> \<exists>v. stop_loss_trigger self atr_14 buy_price current_price = Inr v"
  by (simp add: stop_loss_trigger_def Let_def split: prod.splits)

lemma risk_verdict_no_error:
  "buy_price \<noteq> 0 \<Longrightarrow>
     \<exists>v. risk_verdict self w t ohlc atr_14 sma_20 sma_50 buy_price current_price = Inr v"
  using stop_loss_no_error [of buy_price self atr_14 current_price]
  by (auto simp: risk_verdict_def split: option.splits)

subsection \<open>Grace period\<close>

text \<open>C7: take a holding whose most recent BUY is less than 24 hours old and that satisfies
  the trend-breakdown condition (price below SMA20 below SMA50, the price being positive),
  with neither the stop-loss nor the trailing take-profit triggered. If the panic flag is not
  set, the holding is held and one HOLD row with the grace-period reason is logged; if the
  panic flag is set, the same holding is sold for trend breakdown. The flag that
  \<open>generate_plan\<close> leaves in the instance is \<open>env_bias < 0.3\<close>.\<close>

theorem grace_period_and_panic:
  assumes "0 < py_int (h_qty data)" and "holding_price self w t data = Some cp" and "0 < cp"
    and "holding_sma (fetch_history self t) 20 = Some s20"
    and "holding_sma (fetch_history self t) 50 = Some s50"
    and "cp < s20" and "s20 < s50"
    and "stop_loss_trigger self (holding_atr self (fetch_history self t)) (h_avg_entry data) cp
           = Inr None"
    and "trailing_trigger self (fetch_history self t) (h_avg_entry data) cp = None"
    and "get_last_buy_time w t = Some last_buy" and "now w - last_buy < 24"
  shows "(panic_mode self \<noteq> Some True \<longrightarrow>
            (\<exists>r. check_holding self (t, data) (so, tp, w)
                    = Inr (so, tp, w\<lparr>history := history w @ [r]\<rparr>)
                \<and> r_ticker r = t \<and> r_action r = HOLD \<and> r_decision_reason r = GracePeriod))
       \<and> (panic_mode self = Some True \<longrightarrow>
            (\<exists>r. check_holding self (t, data) (so, tp, w)
                    = Inr (so @ [\<lparr> o_ticker = t, o_action = Sell_side,
                                    o_quantity = of_int (py_int (h_qty data)),
                                    o_order_type = Limit, o_limit_price = Some cp,
                                    o_reason = TrendBreakdown,
                                    o_decision_id = Suc (length (history w)) \<rparr>],
                           tp + cp * of_int (py_int (h_qty data)),
                           w\<lparr>history := history w @ [r]\<rparr>)
                \<and> r_ticker r = t \<and> r_action r = SELL \<and> r_decision_reason r = TrendBreakdown))
       \<and> panic_mode (fst (generate_plan obj wld sd pf env_bias)) = Some (env_bias < 3 / 10)"
proof (intro conjI impI)
  have nz: "cp \<noteq> 0" "s20 \<noteq> 0" "s50 \<noteq> 0" using assms(3,6,7) by auto
  have held: "hours_held w t < 24" using assms(10,11) by (simp add: hours_held_def)
  {
    assume calm: "panic_mode self \<noteq> Some True"
    have "breakdown_trigger self w t (Some s20) (Some s50) cp = Grace"
      using calm held nz assms(6,7) by (auto simp: breakdown_trigger_def split: option.splits)
    then have "risk_verdict self w t (fetch_history self t)
            (holding_atr self (fetch_history self t))
            (holding_sma (fetch_history self t) 20)
            (holding_sma (fetch_history self t) 50) (h_avg_entry data) cp = Inr Grace"
      using assms(4,5,8,9) by (simp add: risk_verdict_def)
    from check_holding_grace [OF assms(1,2) nz(1) this]
    show "\<exists>r. check_holding self (t, data) (so, tp, w)
                    = Inr (so, tp, w\<lparr>history := history w @ [r]\<rparr>)
                \<and> r_ticker r = t \<and> r_action r = HOLD \<and> r_decision_reason r = GracePeriod"
      by (rule logged_rowI) (simp add: blank_row_def)
  }
  {
    assume panic: "panic_mode self = Some True"
    have "breakdown_trigger self w t (Some s20) (Some s50) cp = Sell TrendBreakdown"
      using panic nz assms(6,7) by (simp add: breakdown_trigger_def)
    then have "risk_verdict self w t (fetch_history self t)
            (holding_atr self (fetch_history self t))
            (holding_sma (fetch_history self t) 20)
            (holding_sma (fetch_history self t) 50) (h_avg_entry data) cp
              = Inr (Sell TrendBreakdown)"
      using assms(4,5,8,9) by (simp add: risk_verdict_def)
    from check_holding_sell [OF assms(1,2) nz(1) this]
    show "\<exists>r. check_holding self (t, data) (so, tp, w)
                    = Inr (so @ [\<lparr> o_ticker = t, o_action = Sell_side,
                                    o_quantity = of_int (py_int (h_qty data)),
                                    o_order_type = Limit, o_limit_price = Some cp,
                                    o_reason = TrendBreakdown,
                                    o_decision_id = Suc (length (history w)) \<rparr>],
                           tp + cp * of_int (py_int (h_qty data)),
                           w\<lparr>history := history w @ [r]\<rparr>)
                \<and> r_ticker r = t \<and> r_action r = SELL \<and> r_decision_reason r = TrendBreakdown"
      by (rule logged_rowI) (simp add: blank_row_def)
  }
  show "panic_mode (fst (generate_plan obj wld sd pf env_bias)) = Some (env_bias < 3 / 10)"
    using generate_plan_instance by blast
qed

subsection \<open>Decision records of the risk check\<close>

lemma logged_row_anyI:
  assumes "x = Inr (so', tp', w\<lparr>history := history w @ [r]\<rparr>)" and "P r"
  shows "\<exists>so' tp' r. x = Inr (so', tp', w\<lparr>history := history w @ [r]\<rparr>) \<and> P r"
  using assms by blast

text \<open>C5 (amended): for every holding whose truncated share count is positive, whose current
  price is available and not zero and whose entry price is not zero, the loop body of
  \<open>check_portfolio_risks\<close> logs exactly one decision row, a HOLD or a SELL, carrying the price
  and the computed ATR, SMA20 and SMA50. A holding whose current price cannot be obtained is
  skipped without any row.\<close>

theorem evaluated_holding_logs_one_row:
  "(0 < py_int (h_qty data) \<and> holding_price self w t data = Some cp \<and> cp \<noteq> 0
      \<and> h_avg_entry data \<noteq> 0
     \<longrightarrow> (\<exists>so' tp' r. check_holding self (t, data) (so, tp, w)
                         = Inr (so', tp', w\<lparr>history := history w @ [r]\<rparr>)
            \<and> r_ticker r = t \<and> (r_action r = HOLD \<or> r_action r = SELL)
            \<and> r_price r = Some cp
            \<and> r_atr_14 r = holding_atr self (fetch_history self t)
            \<and> r_sma_20 r = holding_sma (fetch_history self t) 20
            \<and> r_sma_50 r = holding_sma (fetch_history self t) 50))
   \<and> (\<not> truthy_opt (holding_price self w t data)
        \<longrightarrow> check_holding self (t, data) (so, tp, w) = Inr (so, tp, w))"
proof (intro conjI impI)
  assume a: "0 < py_int (h_qty data) \<and> holding_price self w t data = Some cp \<and> cp \<noteq> 0
      \<and> h_avg_entry data \<noteq> 0"
  then obtain v where v: "risk_verdict self w t (fetch_history self t)
            (holding_atr self (fetch_history self t))
            (holding_sma (fetch_history self t) 20)
            (holding_sma (fetch_history self t) 50) (h_avg_entry data) cp = Inr v"
    using risk_verdict_no_error by blast
  let ?goal = "\<exists>so' tp' r. check_holding self (t, data) (so, tp, w)
                         = Inr (so', tp', w\<lparr>history := history w @ [r]\<rparr>)
            \<and> r_ticker r = t \<and> (r_action r = HOLD \<or> r_action r = SELL)
            \<and> r_price r = Some cp
            \<and> r_atr_14 r = holding_atr self (fetch_history self t)
            \<and> r_sma_20 r = holding_sma (fetch_history self t) 20
            \<and> r_sma_50 r = holding_sma (fetch_history self t) 50"
  have a1: "0 < py_int (h_qty data)" and a2: "holding_price self w t data = Some cp"
    and a3: "cp \<noteq> 0" using a by simp_all
  show ?goal
  proof (cases v)
    case (Sell why)
    show ?thesis
      by (rule logged_row_anyI [OF check_holding_sell [OF a1 a2 a3 v [unfolded Sell]]])
         (simp add: blank_row_def)
  next
    case Grace
    show ?thesis
      by (rule logged_row_anyI [OF check_holding_grace [OF a1 a2 a3 v [unfolded Grace]]])
         (simp add: blank_row_def)
  next
    case Keep
    show ?thesis
      by (rule logged_row_anyI [OF check_holding_keep [OF a1 a2 a3 v [unfolded Keep]]])
         (simp add: blank_row_def)
  qed
next
  assume "\<not> truthy_opt (holding_price self w t data)"
  then show "check_holding self (t, data) (so, tp, w) = Inr (so, tp, w)"
    by (auto simp: check_holding_def truthy_opt_def truthy_def Let_def split: option.splits)
qed

text \<open>C5, as the claim states it, fails: a holding of ten shares whose price cannot be
  fetched leaves the ledger as it was.\<close>

theorem unpriced_holding_not_logged:
  "check_portfolio_risks (config_logic None) quiet_world [(''XYZ'', unpriced_holding)]
     = Inr ([], 0, quiet_world)"
  by (simp add: check_portfolio_risks_def check_holding_def unpriced_holding_def
        holding_price_def truthy_opt_def fetch_price_def config_logic_def init_logic_def
        quiet_world_def py_int_def Let_def)

subsection \<open>The scenarios evaluated\<close>

lemma fetch_history_env_bias: "fetch_history (apply_env_bias self e) t = fetch_history self t"
  by (simp add: fetch_history_def apply_env_bias_def)

lemma xyz_history:
  "fetch_history calm_logic ''XYZ'' = Some downtrend_bars"
  "fetch_history panic_logic ''XYZ'' = Some downtrend_bars"
  "fetch_history calm_logic ''NEW'' = Some short_bars"
  by (simp_all add: calm_logic_def panic_logic_def fetch_history_env_bias market_history)

lemma scenario_atr:
  "holding_atr calm_logic (Some downtrend_bars) = Some 2"
  "holding_atr panic_logic (Some downtrend_bars) = Some 2"
  "holding_atr calm_logic (Some short_bars) = Some 2"
  using downtrend_atr short_atr
  by (simp_all add: holding_atr_def calm_logic_def panic_logic_def apply_env_bias_def
        config_logic_def init_logic_def)

lemma flat_price:
  "holding_price self w t flat_holding = Some 100"
  by (simp add: holding_price_def flat_holding_def truthy_opt_def)

lemma flat_shares: "py_int (h_qty flat_holding) = 10"
  by (simp add: flat_holding_def py_int_def)

lemma scenario_no_stop:
  "stop_loss_trigger calm_logic (Some 2) (h_avg_entry flat_holding) 100 = Inr None"
  "stop_loss_trigger panic_logic (Some 2) (h_avg_entry flat_holding) 100 = Inr None"
  by (simp_all add: stop_loss_trigger_def zero_loss_rule_def initial_stop_price_def
        flat_holding_def calm_logic_def panic_logic_def apply_env_bias_def config_logic_def
        init_logic_def Let_def)

lemma scenario_no_trailing:
  "trailing_trigger calm_logic ohlc (h_avg_entry flat_holding) 100 = None"
  "trailing_trigger panic_logic ohlc (h_avg_entry flat_holding) 100 = None"
  by (simp_all add: trailing_trigger_def flat_holding_def calm_logic_def panic_logic_def
        apply_env_bias_def config_logic_def init_logic_def)

lemma scenario_panic:
  "panic_mode calm_logic = Some False" "panic_mode panic_logic = Some True"
  by (simp_all add: calm_logic_def panic_logic_def apply_env_bias_def)

lemma recent_buy: "get_last_buy_time recent_buy_world ''XYZ'' = Some 90"
  by (simp add: get_last_buy_time_def recent_buy_world_def blank_row_def)

theorem grace_period_and_panic_witness:
  "(\<exists>r. check_holding calm_logic (''XYZ'', flat_holding) ([], 0, recent_buy_world)
            = Inr ([], 0, recent_buy_world\<lparr>history := history recent_buy_world @ [r]\<rparr>)
        \<and> r_ticker r = ''XYZ'' \<and> r_action r = HOLD \<and> r_decision_reason r = GracePeriod)
   \<and> (\<exists>r. check_holding panic_logic (''XYZ'', flat_holding) ([], 0, recent_buy_world)
            = Inr ([\<lparr> o_ticker = ''XYZ'', o_action = Sell_side, o_quantity = 10,
                       o_order_type = Limit, o_limit_price = Some 100,
                       o_reason = TrendBreakdown, o_decision_id = 2 \<rparr>],
                   1000, recent_buy_world\<lparr>history := history recent_buy_world @ [r]\<rparr>)
        \<and> r_ticker r = ''XYZ'' \<and> r_action r = SELL \<and> r_decision_reason r = TrendBreakdown)"
proof -
  have sh: "0 < py_int (h_qty flat_holding)" by (simp add: flat_shares)
  have pos: "(0::real) < 100" and lt1: "(100::real) < 105" and lt2: "(105::real) < 114"
    and age: "now recent_buy_world - 90 < 24"
    by (simp_all add: recent_buy_world_def)
  have calm: "holding_sma (fetch_history calm_logic ''XYZ'') 20 = Some 105"
    "holding_sma (fetch_history calm_logic ''XYZ'') 50 = Some 114"
    "stop_loss_trigger calm_logic (holding_atr calm_logic (fetch_history calm_logic ''XYZ''))
       (h_avg_entry flat_holding) 100 = Inr None"
    by (simp_all add: xyz_history downtrend_sma20 downtrend_sma50 scenario_atr scenario_no_stop)
  have panic: "holding_sma (fetch_history panic_logic ''XYZ'') 20 = Some 105"
    "holding_sma (fetch_history panic_logic ''XYZ'') 50 = Some 114"
    "stop_loss_trigger panic_logic (holding_atr panic_logic (fetch_history panic_logic ''XYZ''))
       (h_avg_entry flat_holding) 100 = Inr None"
    by (simp_all add: xyz_history downtrend_sma20 downtrend_sma50 scenario_atr scenario_no_stop)
  show ?thesis
    using grace_period_and_panic [OF sh flat_price pos calm(1,2) lt1 lt2 calm(3)
            scenario_no_trailing(1) recent_buy age,
            where so = "[]" and tp = 0 and obj = calm_logic and wld = quiet_world
              and sd = "[]" and pf = "[]" and env_bias = 1]
          grace_period_and_panic [OF sh flat_price pos panic(1,2) lt1 lt2 panic(3)
            scenario_no_trailing(2) recent_buy age,
            where so = "[]" and tp = 0 and obj = calm_logic and wld = quiet_world
              and sd = "[]" and pf = "[]" and env_bias = 1]
    by (simp add: scenario_panic flat_shares recent_buy_world_def numeral_2_eq_2)
qed

lemma stopped_verdict:
  "risk_verdict (config_logic None) w ''XYZ'' None None None None
      (h_avg_entry stopped_holding) 90 = Inr (Sell HardStopLoss)"
  by (simp add: risk_verdict_def stop_loss_trigger_def zero_loss_rule_def
        initial_stop_price_def stopped_holding_def config_logic_def init_logic_def
        truthy_opt_def Let_def)

lemma offline_history: "fetch_history (config_logic None) t = None"
  by (simp add: fetch_history_def config_logic_def init_logic_def)

lemma stopped_run:
  "check_holding (config_logic None) (''XYZ'', stopped_holding) ([], 0, quiet_world) =
     Inr ([\<lparr> o_ticker = ''XYZ'', o_action = Sell_side, o_quantity = 10,
             o_order_type = Limit, o_limit_price = Some 90, o_reason = HardStopLoss,
             o_decision_id = 1 \<rparr>],
          900,
          quiet_world\<lparr>history :=
             [(blank_row ''XYZ'' SELL HardStopLoss)
                \<lparr> r_quantity := 10, r_price := Some 90,
                  r_entry_price := Some 100, r_exit_price := Some 90,
                  r_pnl := Some (- 100), r_pnl_percent := Some (- 10) \<rparr>]\<rparr>)"
proof -
  have sh: "py_int (h_qty stopped_holding) = 10"
    by (simp add: stopped_holding_def py_int_def)
  have pr: "holding_price (config_logic None) quiet_world ''XYZ'' stopped_holding = Some 90"
    by (simp add: holding_price_def stopped_holding_def truthy_opt_def)
  have rv: "risk_verdict (config_logic None) quiet_world ''XYZ''
      (fetch_history (config_logic None) ''XYZ'')
      (holding_atr (config_logic None) (fetch_history (config_logic None) ''XYZ''))
      (holding_sma (fetch_history (config_logic None) ''XYZ'') 20)
      (holding_sma (fetch_history (config_logic None) ''XYZ'') 50)
      (h_avg_entry stopped_holding) 90 = Inr (Sell HardStopLoss)"
    by (simp add: offline_history holding_atr_def holding_sma_def stopped_verdict)
  show ?thesis
    using check_holding_sell [OF _ pr _ rv, of "[]" 0]
    by (simp add: offline_history holding_atr_def holding_sma_def recent_high_def
          quiet_world_def blank_row_def stopped_holding_def py_int_def)
qed

theorem risk_check_truncates_quantity_witness:
  "check_holding (config_logic None) (''XYZ'', fractional_holding) ([], 0, quiet_world)
      = Inr ([], 0, quiet_world)
   \<and> (\<exists>sell_orders total_proceeds w'.
         check_portfolio_risks (config_logic None) quiet_world [(''XYZ'', stopped_holding)]
           = Inr (sell_orders, total_proceeds, w')
         \<and> map o_quantity sell_orders = [10]
         \<and> (\<forall>od \<in> set sell_orders.
               \<exists>data. (o_ticker od, data) \<in> set [(''XYZ'', stopped_holding)]
                  \<and> o_action od = Sell_side \<and> 0 < py_int (h_qty data)
                  \<and> o_quantity od = of_int (py_int (h_qty data))))"
proof -
  have frac: "0 < h_qty fractional_holding \<and> h_qty fractional_holding < 1"
    by (simp add: fractional_holding_def)
  obtain sell_orders total_proceeds w'
    where run: "check_portfolio_risks (config_logic None) quiet_world [(''XYZ'', stopped_holding)]
                  = Inr (sell_orders, total_proceeds, w')"
      and qty: "map o_quantity sell_orders = [10]"
    by (simp add: check_portfolio_risks_def stopped_run)
  note inst = risk_check_truncates_quantity
            [of fractional_holding "config_logic None" "''XYZ''" "([], 0, quiet_world)"
                quiet_world "[(''XYZ'', stopped_holding)]" sell_orders total_proceeds w']
  have c1: "check_holding (config_logic None) (''XYZ'', fractional_holding) ([], 0, quiet_world)
      = Inr ([], 0, quiet_world)"
    using inst frac by blast
  have c2: "\<forall>od \<in> set sell_orders.
               \<exists>data. (o_ticker od, data) \<in> set [(''XYZ'', stopped_holding)]
                  \<and> o_action od = Sell_side \<and> 0 < py_int (h_qty data)
                  \<and> o_quantity od = of_int (py_int (h_qty data))"
    using inst run by blast
  show ?thesis
    by (rule conjI, rule c1, intro exI conjI, rule run, rule qty, rule c2)
qed

theorem evaluated_holding_logs_one_row_witness:
  "(\<exists>so' tp' r. check_holding (config_logic None) (''XYZ'', stopped_holding) ([], 0, quiet_world)
                   = Inr (so', tp', quiet_world\<lparr>history := history quiet_world @ [r]\<rparr>)
        \<and> r_ticker r = ''XYZ'' \<and> (r_action r = HOLD \<or> r_action r = SELL)
        \<and> r_price r = Some 90)
   \<and> check_holding (config_logic None) (''XYZ'', unpriced_holding) ([], 0, quiet_world)
        = Inr ([], 0, quiet_world)"
proof -
  have a: "0 < py_int (h_qty stopped_holding)
      \<and> holding_price (config_logic None) quiet_world ''XYZ'' stopped_holding = Some 90
      \<and> (90::real) \<noteq> 0 \<and> h_avg_entry stopped_holding \<noteq> 0"
    by (simp add: holding_price_def stopped_holding_def truthy_opt_def py_int_def)
  have b: "\<not> truthy_opt (holding_price (config_logic None) quiet_world ''XYZ'' unpriced_holding)"
    by (simp add: holding_price_def unpriced_holding_def truthy_opt_def fetch_price_def
          config_logic_def init_logic_def quiet_world_def)
  show ?thesis
    using evaluated_holding_logs_one_row
            [of stopped_holding "config_logic None" quiet_world "''XYZ''" 90 "[]" 0]
          evaluated_holding_logs_one_row
            [of unpriced_holding "config_logic None" quiet_world "''XYZ''" 90 "[]" 0]
          a b
    by blast
qed

lemma breakdown_run:
  "\<exists>w'. check_portfolio_risks calm_logic quiet_world [(''XYZ'', flat_holding)] =
     Inr ([\<lparr> o_ticker = ''XYZ'', o_action = Sell_side, o_quantity = 10,
             o_order_type = Limit, o_limit_price = Some 100, o_reason = TrendBreakdown,
             o_decision_id = 1 \<rparr>], 1000, w')"
proof -
  have sh: "0 < py_int (h_qty flat_holding)" by (simp add: flat_shares)
  have nz: "(100::real) \<noteq> 0" by simp
  have "hours_held quiet_world ''XYZ'' = 999"
    by (simp add: hours_held_def get_last_buy_time_def quiet_world_def)
  then have "breakdown_trigger calm_logic quiet_world ''XYZ'' (Some 105) (Some 114) 100
               = Sell TrendBreakdown"
    by (simp add: breakdown_trigger_def)
  then have rv: "risk_verdict calm_logic quiet_world ''XYZ'' (fetch_history calm_logic ''XYZ'')
      (holding_atr calm_logic (fetch_history calm_logic ''XYZ''))
      (holding_sma (fetch_history calm_logic ''XYZ'') 20)
      (holding_sma (fetch_history calm_logic ''XYZ'') 50)
      (h_avg_entry flat_holding) 100 = Inr (Sell TrendBreakdown)"
    by (simp add: risk_verdict_def xyz_history downtrend_sma20 downtrend_sma50 scenario_atr
          scenario_no_stop scenario_no_trailing)
  show ?thesis
    using check_holding_sell [OF sh flat_price nz rv, of "[]" 0]
    by (simp add: check_portfolio_risks_def flat_shares quiet_world_def)
qed

theorem breakdown_needs_both_averages_witness:
  "(\<exists>sell_orders total_proceeds w'.
      check_portfolio_risks calm_logic quiet_world [(''XYZ'', flat_holding)]
        = Inr (sell_orders, total_proceeds, w')
      \<and> map o_reason sell_orders = [TrendBreakdown]
      \<and> (\<forall>od \<in> set sell_orders. o_reason od = TrendBreakdown \<longrightarrow>
             (\<exists>cp s20 s50. o_limit_price od = Some cp
                \<and> holding_sma (fetch_history calm_logic (o_ticker od)) 20 = Some s20
                \<and> holding_sma (fetch_history calm_logic (o_ticker od)) 50 = Some s50
                \<and> cp < s20 \<and> s20 < s50)))
   \<and> holding_sma (fetch_history calm_logic ''NEW'') 20 = Some 105
   \<and> holding_sma (fetch_history calm_logic ''NEW'') 50 = None
   \<and> (\<exists>r. check_holding calm_logic (''NEW'', flat_holding) ([], 0, quiet_world)
              = Inr ([], 0, quiet_world\<lparr>history := history quiet_world @ [r]\<rparr>)
          \<and> r_ticker r = ''NEW'' \<and> r_action r = HOLD \<and> r_decision_reason r = SafeHold)"
proof -
  obtain sell_orders total_proceeds w'
    where run: "check_portfolio_risks calm_logic quiet_world [(''XYZ'', flat_holding)]
                  = Inr (sell_orders, total_proceeds, w')"
      and why: "map o_reason sell_orders = [TrendBreakdown]"
    using breakdown_run by auto
  have alone: "holding_sma (fetch_history calm_logic ''NEW'') 50 = None
        \<and> 0 < py_int (h_qty flat_holding)
        \<and> holding_price calm_logic quiet_world ''NEW'' flat_holding = Some 100
        \<and> (100::real) \<noteq> 0
        \<and> stop_loss_trigger calm_logic (holding_atr calm_logic (fetch_history calm_logic ''NEW''))
             (h_avg_entry flat_holding) 100 = Inr None
        \<and> trailing_trigger calm_logic (fetch_history calm_logic ''NEW'')
             (h_avg_entry flat_holding) 100 = None"
    by (simp add: xyz_history short_sma50 flat_shares flat_price scenario_atr scenario_no_stop
          scenario_no_trailing)
  note inst = breakdown_needs_both_averages
     [where self = calm_logic and w = quiet_world
        and holdings_data = "[(''XYZ'', flat_holding)]" and sell_orders = sell_orders
        and total_proceeds = total_proceeds and w' = w' and t = "''NEW''"
        and data = flat_holding and current_price = 100 and so = "[]" and tp = 0]
  have c1: "\<forall>od \<in> set sell_orders. o_reason od = TrendBreakdown \<longrightarrow>
             (\<exists>cp s20 s50. o_limit_price od = Some cp
                \<and> holding_sma (fetch_history calm_logic (o_ticker od)) 20 = Some s20
                \<and> holding_sma (fetch_history calm_logic (o_ticker od)) 50 = Some s50
                \<and> cp < s20 \<and> s20 < s50)"
    using inst run by blast
  have c2: "\<exists>r. check_holding calm_logic (''NEW'', flat_holding) ([], 0, quiet_world)
              = Inr ([], 0, quiet_world\<lparr>history := history quiet_world @ [r]\<rparr>)
          \<and> r_ticker r = ''NEW'' \<and> r_action r = HOLD \<and> r_decision_reason r = SafeHold"
    using inst alone by blast
  have c3: "holding_sma (fetch_history calm_logic ''NEW'') 20 = Some 105"
    "holding_sma (fetch_history calm_logic ''NEW'') 50 = None"
    by (simp_all add: xyz_history short_sma20 short_sma50)
  show ?thesis
    by (rule conjI, intro exI conjI, rule run, rule why, rule c1, intro conjI,
        rule c3(1), rule c3(2), rule c2)
qed

subsection \<open>New signals: technical filter and concentration cap\<close>

text \<open>With fewer than fifteen bars \<open>calculate_rsi\<close> returns \<open>None\<close>, and the overbought
  test compares it with 75.\<close>

lemma technical_filter_short_history:
  assumes "fetch_history self (ri_ticker item) = Some bars" and "length bars < 15"
  shows "technical_filter self item new_price = Inl TypeError"
  using assms by (simp add: technical_filter_def calculate_rsi_def Let_def)

lemma validate_ticker_keeps:
  "api (snd (validate_ticker self t)) = api self"
  "budget (snd (validate_ticker self t)) = budget self"
  "max_concentration_percent (snd (validate_ticker self t)) = max_concentration_percent self"
  "risk_per_trade_percent (snd (validate_ticker self t)) = risk_per_trade_percent self"
  by (simp_all add: validate_ticker_def split: option.splits asset_lookup.splits)

lemma fetch_price_api: "api s = api s' \<Longrightarrow> fetch_price s w t = fetch_price s' w t"
  by (simp add: fetch_price_def)

lemma fetch_history_api: "api s = api s' \<Longrightarrow> fetch_history s t = fetch_history s' t"
  by (simp add: fetch_history_def)

lemma plan_item_cap_reached:
  assumes "ri_type item = new_signal" and "ri_price item = Some p" and "p \<noteq> 0"
    and "\<lfloor>budget self * max_concentration_percent self / p\<rfloor>
           \<le> py_int (case map_of held (ri_ticker item) of None \<Rightarrow> 0 | Some d \<Rightarrow> h_qty d)"
  shows "plan_item self held rl item st =
           Inr (log_skip st (signal_row item SKIP
                  (if is_on_cooldown (ledger st) (ri_ticker item) 4
                   then SkipCooldown else SkipMaxConcentration) p))"
  using assms by (simp add: plan_item_def truthy_def Let_def)

text \<open>C2, as the claim states it, fails: with price 500, budget 1000 and a concentration
  cap of 20 percent the cycle emits no order; the only row logged is the skip for maximum
  concentration.\<close>

theorem scenario_c_emits_no_order:
  "snd (generate_plan (config_logic (Some nvda_api)) quiet_world [nvda_signal] [] 1) =
     Inr ([], quiet_world\<lparr>history :=
               [(blank_row ''NVDA'' SKIP SkipMaxConcentration)
                  \<lparr> r_price := Some 500, r_sentiment_score := Some (3 / 4),
                    r_duration_score := Some (8 / 10) \<rparr>]\<rparr>)"
  by (simp add: generate_plan_def config_logic_def init_logic_def nvda_api_def nvda_signal_def
        quiet_world_def apply_env_bias_def cost_basis_usage_def build_rank_list_def
        validate_ticker_def fetch_price_def add_holdings_def rank_sort_def
        check_portfolio_risks_def after_risk_check_def plan_item_def truthy_def
        is_on_cooldown_def py_int_def log_skip_def signal_row_def log_decision_def
        blank_row_def Let_def)

text \<open>C3: the claim is that unavailable indicator data never fails the cycle. The code does
  not do that: for a new Buy candidate whose fetched history has ten bars,
  \<open>generate_plan\<close> ends with a \<open>TypeError\<close>.\<close>

theorem short_history_raises:
  "snd (generate_plan (config_logic (Some market_api)) quiet_world [ipo_signal] [] 1)
     = Inl TypeError"
proof -
  have "map_sum id fst
          (snd (generate_plan (config_logic (Some market_api)) quiet_world [ipo_signal] [] 1))
        = Inl TypeError"
    by code_simp
  then show ?thesis
    by (cases "snd (generate_plan (config_logic (Some market_api)) quiet_world [ipo_signal] [] 1)")
       simp_all
qed

lemma apply_env_bias_keeps:
  "api (apply_env_bias self e) = api self"
  "budget (apply_env_bias self e) = budget self"
  "max_concentration_percent (apply_env_bias self e) = max_concentration_percent self"
  "risk_per_trade_percent (apply_env_bias self e) = risk_per_trade_percent self"
  "ticker_cache (apply_env_bias self e) = ticker_cache self"
  by (simp_all add: apply_env_bias_def)

lemma validate_ticker_cache_only:
  "api s = api s' \<Longrightarrow> ticker_cache s = ticker_cache s' \<Longrightarrow>
     fst (validate_ticker s t) = fst (validate_ticker s' t)"
  by (simp add: validate_ticker_def split: option.splits asset_lookup.splits)

lemma cost_basis_usage_api:
  "api s = api s' \<Longrightarrow> cost_basis_usage s pf = cost_basis_usage s' pf"
  by (simp add: cost_basis_usage_def)

lemma no_holdings_no_risk: "check_portfolio_risks s w [] = Inr ([], 0, w)"
  by (simp add: check_portfolio_risks_def)

text \<open>C2 (amended): for a new Buy signal with price 500, with \<open>total_budget = 1000\<close> and
  \<open>max_concentration_pct = 0.2\<close>, no existing position and the full budget remaining,
  \<open>generate_plan\<close> emits no order, whatever the risk fraction and the scores of the signal:
  the cap \<open>floor (1000 * 0.2 / 500) = 0\<close> is already reached with no share held. When the
  ticker is valid and not on cooldown, the one row logged is the skip for maximum
  concentration; neither the one-share upgrade nor the swap logic is reached.\<close>

theorem scenario_c_skipped_at_concentration_cap:
  assumes "budget self = 1000" and "max_concentration_percent self = 2 / 10"
    and "fetch_price self w ''NVDA'' = Some 500"
    and "cost_basis_usage self portfolio = (0, [])"
    and "s_ticker sg = ''NVDA''" and "s_action sg = ''Buy''"
  shows "(\<exists>w'. snd (generate_plan self w [sg] portfolio 1) = Inr ([], w'))
       \<and> (fst (validate_ticker self ''NVDA'') \<and> \<not> is_on_cooldown w ''NVDA'' 4 \<longrightarrow>
            (\<exists>r. snd (generate_plan self w [sg] portfolio 1)
                    = Inr ([], w\<lparr>history := history w @ [r]\<rparr>)
               \<and> r_ticker r = ''NVDA'' \<and> r_action r = SKIP
               \<and> r_decision_reason r = SkipMaxConcentration \<and> r_price r = Some 500))"
proof -
  define s1 where "s1 = apply_env_bias self 1"
  obtain valid s2 where vt: "validate_ticker s1 ''NVDA'' = (valid, s2)"
    by (cases "validate_ticker s1 ''NVDA''")
  have s2: "api s2 = api self" "budget s2 = 1000" "max_concentration_percent s2 = 2 / 10"
    using validate_ticker_keeps [of s1 "''NVDA''"] vt assms(1,2)
    by (simp_all add: s1_def apply_env_bias_keeps)
  have valid: "valid = fst (validate_ticker self ''NVDA'')"
    using validate_ticker_cache_only [of s1 self "''NVDA''"] vt
    by (simp add: s1_def apply_env_bias_keeps)
  have price: "fetch_price s2 w ''NVDA'' = Some 500"
    using fetch_price_api [of s2 self w "''NVDA''"] s2(1) assms(3) by simp
  have cb: "cost_basis_usage s1 portfolio = (0, [])"
    using cost_basis_usage_api [of s1 self portfolio] assms(4)
    by (simp add: s1_def apply_env_bias_keeps)
  define sent where "sent = (case s_sentiment_score sg of None \<Rightarrow> 0 | Some v \<Rightarrow> v)"
  define dur where "dur = (case s_duration_score sg of None \<Rightarrow> 1 / 2 | Some v \<Rightarrow> v)"
  define item where "item =
     \<lparr> ri_ticker = ''NVDA'', ri_type = new_signal, ri_rank_score = sent * dur,
       ri_sent_score = sent, ri_dur_score = dur, ri_price = Some (500::real),
       ri_qty = None \<rparr>"
  have cap: "plan_item s2 [] [item] item st =
           Inr (log_skip st (signal_row item SKIP
                  (if is_on_cooldown (ledger st) (ri_ticker item) 4
                   then SkipCooldown else SkipMaxConcentration) 500))" for st
    by (rule plan_item_cap_reached) (simp_all add: item_def s2 py_int_def)
  show ?thesis
  proof (cases valid)
    case False
    have "snd (generate_plan self w [sg] portfolio 1) =
            Inr ([], snd (log_decision w
                   ((blank_row ''NVDA'' SKIP SkipNotTradable)
                      \<lparr> r_price := Some 0, r_sentiment_score := Some sent,
                        r_duration_score := Some dur \<rparr>)))"
      using False vt cb assms(5,6)
      by (simp add: generate_plan_def build_rank_list_def add_holdings_def rank_sort_def
            no_holdings_no_risk after_risk_check_def Let_def s1_def [symmetric]
            sent_def dur_def)
    then show ?thesis using False valid by simp
  next
    case True
    have run: "snd (generate_plan self w [sg] portfolio 1) =
            Inr ([], snd (log_decision w (signal_row item SKIP
                  (if is_on_cooldown w ''NVDA'' 4
                   then SkipCooldown else SkipMaxConcentration) 500)))"
      using True vt cb assms(5,6) price
      by (simp add: generate_plan_def build_rank_list_def add_holdings_def rank_sort_def
            no_holdings_no_risk Let_def s1_def [symmetric] sent_def [symmetric]
            dur_def [symmetric] item_def [symmetric] cap log_skip_def after_risk_check_def)
         (simp add: item_def)
    have first: "\<exists>w'. snd (generate_plan self w [sg] portfolio 1) = Inr ([], w')"
      using run by blast
    have second: "\<exists>r. snd (generate_plan self w [sg] portfolio 1)
                    = Inr ([], w\<lparr>history := history w @ [r]\<rparr>)
               \<and> r_ticker r = ''NVDA'' \<and> r_action r = SKIP
               \<and> r_decision_reason r = SkipMaxConcentration \<and> r_price r = Some 500"
      if "\<not> is_on_cooldown w ''NVDA'' 4"
      using run that
      by (intro exI [of _ "(signal_row item SKIP SkipMaxConcentration 500)\<lparr>r_timestamp := now w\<rparr>"])
         (simp add: log_decision_def signal_row_def blank_row_def item_def)
    show ?thesis using first second by blast
  qed
qed

theorem scenario_c_skipped_at_concentration_cap_witness:
  "\<exists>r. snd (generate_plan (config_logic (Some nvda_api)) quiet_world [nvda_signal] [] 1)
           = Inr ([], quiet_world\<lparr>history := history quiet_world @ [r]\<rparr>)
      \<and> r_ticker r = ''NVDA'' \<and> r_action r = SKIP
      \<and> r_decision_reason r = SkipMaxConcentration \<and> r_price r = Some 500"
proof -
  have h: "budget (config_logic (Some nvda_api)) = 1000"
    "max_concentration_percent (config_logic (Some nvda_api)) = 2 / 10"
    "fetch_price (config_logic (Some nvda_api)) quiet_world ''NVDA'' = Some 500"
    "cost_basis_usage (config_logic (Some nvda_api)) [] = (0, [])"
    "s_ticker nvda_signal = ''NVDA''" "s_action nvda_signal = ''Buy''"
    by (simp_all add: config_logic_def init_logic_def nvda_api_def fetch_price_def
          cost_basis_usage_def nvda_signal_def)
  have ok: "fst (validate_ticker (config_logic (Some nvda_api)) ''NVDA'')
              \<and> \<not> is_on_cooldown quiet_world ''NVDA'' 4"
    by (simp add: validate_ticker_def config_logic_def init_logic_def nvda_api_def
          is_on_cooldown_def quiet_world_def)
  show ?thesis
    using scenario_c_skipped_at_concentration_cap [OF h] ok by blast
qed

subsection \<open>Budget: sizing and swap\<close>

lemma buy_cost_append [simp]:
  "buy_cost q (xs @ ys) = buy_cost q xs + buy_cost q ys"
  by (simp add: buy_cost_def)

lemma sell_proceeds_append [simp]:
  "sell_proceeds q (xs @ ys) = sell_proceeds q xs + sell_proceeds q ys"
  by (simp add: sell_proceeds_def)





lemma rounding_allowance_append [simp]:
  "rounding_allowance q (xs @ ys) = rounding_allowance q xs + rounding_allowance q ys"
  by (simp add: rounding_allowance_def)








subsection \<open>The budget through the execution loop\<close>







subsection \<open>Proceeds of the risk check\<close>




subsection \<open>Prices in the rank list\<close>




subsection \<open>The budget of a cycle\<close>












text \<open>The condition on the prices is needed. A position reported at a negative price is sold
  by the stop loss with negative proceeds, and a cycle without any buy then exceeds the bound:
  \<open>0 > max 0 (1000 - 1000) + (-10)\<close>.\<close>

lemma negative_price_cycle_orders:
  "map_sum id fst (snd (generate_plan (config_logic (Some neg_api)) quiet_world [] [] 1))
     = Inr [neg_sell]"
  by code_simp

lemma negative_price_breaks_bound:
  "\<not> buy_cost (quote (config_logic (Some neg_api)) quiet_world) [neg_sell]
       \<le> max 0 (budget (config_logic (Some neg_api)) * 1
                   - fst (cost_basis_usage (config_logic (Some neg_api)) []))
           + sell_proceeds (quote (config_logic (Some neg_api)) quiet_world) [neg_sell]
           + rounding_allowance (quote (config_logic (Some neg_api)) quiet_world) [neg_sell]"
proof -
  have b: "budget (config_logic (Some neg_api)) = 1000"
    by (simp add: config_logic_def init_logic_def)
  have cb: "fst (cost_basis_usage (config_logic (Some neg_api)) []) = 1000"
    by (simp add: cost_basis_usage_def config_logic_def init_logic_def neg_api_def)
  show ?thesis
    by (simp add: b cb buy_cost_def sell_proceeds_def rounding_allowance_def order_value_def
          neg_sell_def)
qed

end
